theory Spec2Isabelle
  imports Complex_Main "HOL-Library.Word"
begin

section \<open>Python values shared by the three scripts\<close>

text \<open>
  Text is a \<^typ>\<open>string\<close> holding the UTF-8 bytes of the source literal; the emoji of
  \<^verbatim>\<open>app.py\<close> are written byte by byte. Floating-point numbers are modelled as
  \<^typ>\<open>real\<close> (no rounding, no NaN). Array indices and dictionary keys are natural numbers:
  the only index the code computes is the result of \<^verbatim>\<open>np.argmax\<close>.
\<close>

subsection \<open>Exceptions\<close>

text \<open>
  An exception instance is its class and its argument. \<^verbatim>\<open>except Exception\<close> catches the
  instances of \<^verbatim>\<open>Exception\<close>; \<^verbatim>\<open>KeyboardInterrupt\<close>, \<^verbatim>\<open>SystemExit\<close>
  and \<^verbatim>\<open>GeneratorExit\<close> derive from \<^verbatim>\<open>BaseException\<close> only and pass through it.
\<close>

datatype exc_class =
    NameError | IndexError | ValueError | KeyError
  | FileNotFoundError | UnidentifiedImageError | OSError | RuntimeError | MemoryError
  | KeyboardInterrupt | SystemExit | GeneratorExit

fun is_Exception :: "exc_class \<Rightarrow> bool" where
  "is_Exception KeyboardInterrupt = False"
| "is_Exception SystemExit = False"
| "is_Exception GeneratorExit = False"
| "is_Exception _ = True"

datatype exc_arg =
    Key nat             \<comment> \<open>the missing dictionary key\<close>
  | Index nat nat       \<comment> \<open>the index and the size of the axis it missed\<close>
  | Name string         \<comment> \<open>the unbound global name\<close>
  | Empty_sequence      \<comment> \<open>\<^verbatim>\<open>np.argmax\<close> of an empty array\<close>
  | Message string      \<comment> \<open>whatever a library call reports\<close>

datatype pyexc = PyExc (exc_class: exc_class) (exc_arg: exc_arg)

definition caught_by_except_Exception :: "pyexc \<Rightarrow> bool" where
  "caught_by_except_Exception e = is_Exception (exc_class e)"

subsection \<open>Images and arrays\<close>

type_synonym rgb = "8 word \<times> 8 word \<times> 8 word"
type_synonym pil_image = "rgb list list"             \<comment> \<open>rows of pixels, mode RGB\<close>
type_synonym array3 = "real list list list"          \<comment> \<open>height, width, channel\<close>
type_synonym tensor = "real list list list list"     \<comment> \<open>batch, height, width, channel\<close>
type_synonym classifier = "tensor \<Rightarrow> pyexc + real list list"

text \<open>
  What the scripts take from their libraries and cannot be read off the source: the decoder
  behind \<^verbatim>\<open>load_img\<close> and \<^verbatim>\<open>Image.open\<close>, the resampling filter, the
  text of a formatted number and of \<^verbatim>\<open>str(e)\<close>.
\<close>

record env =
  decode :: "string \<Rightarrow> pyexc + pil_image"
    \<comment> \<open>open the file at a path and decode it, at its own resolution\<close>
  resample :: "pil_image \<Rightarrow> nat \<times> nat \<Rightarrow> nat \<Rightarrow> nat \<Rightarrow> rgb"
    \<comment> \<open>the pixel at (row, column) of the source resized to (height, width)\<close>
  fmt_1f :: "real \<Rightarrow> string"       \<comment> \<open>\<^verbatim>\<open>f"{x:.1f}"\<close>\<close>
  fmt_str :: "real \<Rightarrow> string"      \<comment> \<open>\<^verbatim>\<open>f"{x}"\<close>\<close>
  fmt_array :: "real list \<Rightarrow> string"   \<comment> \<open>\<^verbatim>\<open>f"{a}"\<close> of an array\<close>
  str_exc :: "pyexc \<Rightarrow> string"     \<comment> \<open>\<^verbatim>\<open>str(e)\<close>\<close>

definition img_width :: nat where "img_width = 224"
definition img_height :: nat where "img_height = 224"

text \<open>
  \<^verbatim>\<open>image.load_img(path, target_size=(h, w))\<close>: Keras opens the file, converts it to RGB and
  resizes it to \<open>h\<close> rows of \<open>w\<close> pixels, whatever the size of the source. Both scripts
  pass \<^verbatim>\<open>(img_width, img_height)\<close>.
\<close>

definition load_img :: "env \<Rightarrow> string \<Rightarrow> nat \<times> nat \<Rightarrow> pyexc + pil_image" where
  "load_img env path target =
     (case decode env path of
        Inl e \<Rightarrow> Inl e
      | Inr src \<Rightarrow>
          Inr (map (\<lambda>row. map (\<lambda>col. resample env src target row col) [0..<snd target])
                   [0..<fst target]))"

definition img_to_array :: "pil_image \<Rightarrow> array3" where
  "img_to_array img =
     map (map (\<lambda>(r, g, b). [real (unat r), real (unat g), real (unat b)])) img"

definition expand_dims :: "array3 \<Rightarrow> tensor" where   \<comment> \<open>\<^verbatim>\<open>axis=0\<close>\<close>
  "expand_dims a = [a]"

definition divide :: "tensor \<Rightarrow> real \<Rightarrow> tensor" where   \<comment> \<open>\<^verbatim>\<open>img_array /= d\<close>\<close>
  "divide t d = map (map (map (map (\<lambda>v. v / d)))) t"

definition getitem :: "'a list \<Rightarrow> nat \<Rightarrow> pyexc + 'a" where
  "getitem xs i =
     (if i < length xs then Inr (xs ! i) else Inl (PyExc IndexError (Index i (length xs))))"

definition dict_getitem :: "(nat \<times> 'v) list \<Rightarrow> nat \<Rightarrow> pyexc + 'v" where
  "dict_getitem d k =
     (case map_of d k of None \<Rightarrow> Inl (PyExc KeyError (Key k)) | Some v \<Rightarrow> Inr v)"

text \<open>
  \<^verbatim>\<open>np.argmax\<close> of a one-dimensional array: one pass that keeps the first position of the
  largest value seen so far; an empty array raises \<^verbatim>\<open>ValueError\<close>.
\<close>

fun argmax_scan :: "real list \<Rightarrow> nat \<Rightarrow> nat \<Rightarrow> real \<Rightarrow> nat" where
  "argmax_scan [] i best_i best = best_i"
| "argmax_scan (x # xs) i best_i best =
     (if best < x then argmax_scan xs (Suc i) i x else argmax_scan xs (Suc i) best_i best)"

definition np_argmax :: "real list \<Rightarrow> pyexc + nat" where
  "np_argmax a =
     (case a of
        [] \<Rightarrow> Inl (PyExc ValueError Empty_sequence)
      | x # xs \<Rightarrow> Inr (argmax_scan xs 1 0 x))"

section \<open>app.py: the Label Catalog\<close>

record care =
  title :: string
  description :: string
  do :: "string list"
  dont :: "string list"

definition class_labels :: "(nat \<times> string) list" where
  "class_labels =
     [(0, ''Early_Vegetative '' @ [CHR 0xF0, CHR 0x9F, CHR 0x8C, CHR 0xBF]),
      (1, ''Flowering_Initiation '' @ [CHR 0xF0, CHR 0x9F, CHR 0x8C, CHR 0xBC]),
      (2, ''Fruiting_and_Ripening '' @ [CHR 0xF0, CHR 0x9F, CHR 0x8D, CHR 0x85]),
      (3, ''Germination_and_Seedling '' @ [CHR 0xF0, CHR 0x9F, CHR 0x8C, CHR 0xB1])]"

definition care_Early_Vegetative :: care where
  "care_Early_Vegetative = \<lparr>
     title = ''Early Vegetative Stage Care '' @ [CHR 0xF0, CHR 0x9F, CHR 0x8C, CHR 0xBF],
     description = ''Your tomato plant is in its early vegetative growth phase, focusing on developing strong stems and leaves.'',
     do = [
        [CHR 0xF0, CHR 0x9F, CHR 0x92, CHR 0xA7] @ '' Water regularly but avoid overwatering - soil should be moist, not soggy'',
        [CHR 0xE2, CHR 0x98, CHR 0x80, CHR 0xEF, CHR 0xB8, CHR 0x8F] @ '' Provide 6-8 hours of direct sunlight daily'',
        [CHR 0xF0, CHR 0x9F, CHR 0x8C, CHR 0xA1, CHR 0xEF, CHR 0xB8, CHR 0x8F] @ '' Maintain temperature between 65-75'' @ [CHR 0xC2, CHR 0xB0] @ ''F (18-24'' @ [CHR 0xC2, CHR 0xB0] @ ''C)'',
        [CHR 0xF0, CHR 0x9F, CHR 0x92, CHR 0xA8] @ '' Ensure good air circulation around the plant'',
        [CHR 0xF0, CHR 0x9F, CHR 0xAA, CHR 0xB4] @ '' Apply balanced fertilizer (10-10-10 or 14-14-14) every 2 weeks'',
        [CHR 0xE2, CHR 0x9C, CHR 0x82, CHR 0xEF, CHR 0xB8, CHR 0x8F] @ '' Start gentle pruning of lower leaves touching the soil'',
        [CHR 0xF0, CHR 0x9F, CHR 0x8F, CHR 0x97, CHR 0xEF, CHR 0xB8, CHR 0x8F] @ '' Begin staking or caging for future support''],
     dont = [
        [CHR 0xE2, CHR 0x9D, CHR 0x8C] @ '' Don't use high-nitrogen fertilizers exclusively'',
        [CHR 0xE2, CHR 0x9D, CHR 0x8C] @ '' Avoid getting water on leaves (causes fungal diseases)'',
        [CHR 0xE2, CHR 0x9D, CHR 0x8C] @ '' Don't transplant during extreme weather'',
        [CHR 0xE2, CHR 0x9D, CHR 0x8C] @ '' Avoid heavy pruning at this stage'',
        [CHR 0xE2, CHR 0x9D, CHR 0x8C] @ '' Don't let soil completely dry out between waterings''] \<rparr>"

definition care_Flowering_Initiation :: care where
  "care_Flowering_Initiation = \<lparr>
     title = ''Flowering Initiation Stage Care '' @ [CHR 0xF0, CHR 0x9F, CHR 0x8C, CHR 0xBC],
     description = ''Your plant is starting to flower! This is a critical stage that determines fruit production.'',
     do = [
        [CHR 0xF0, CHR 0x9F, CHR 0x90, CHR 0x9D] @ '' Encourage pollination by gently shaking flowers daily'',
        [CHR 0xF0, CHR 0x9F, CHR 0x92, CHR 0xA7] @ '' Water consistently - stress can cause flower drop'',
        [CHR 0xF0, CHR 0x9F, CHR 0x8C, CHR 0xA1, CHR 0xEF, CHR 0xB8, CHR 0x8F] @ '' Maintain steady temperature (avoid sudden changes)'',
        [CHR 0xF0, CHR 0x9F, CHR 0xAA, CHR 0xB4] @ '' Switch to low-nitrogen, high-phosphorus fertilizer'',
        [CHR 0xE2, CHR 0x9C, CHR 0x82, CHR 0xEF, CHR 0xB8, CHR 0x8F] @ '' Remove suckers (shoots between main stem and branches)'',
        [CHR 0xF0, CHR 0x9F, CHR 0x8F, CHR 0x97, CHR 0xEF, CHR 0xB8, CHR 0x8F] @ '' Ensure strong support structure is in place'',
        [CHR 0xF0, CHR 0x9F, CHR 0x91, CHR 0x80] @ '' Monitor for early pest signs (aphids, whiteflies)''],
     dont = [
        [CHR 0xE2, CHR 0x9D, CHR 0x8C] @ '' Don't over-fertilize with nitrogen (reduces flowering)'',
        [CHR 0xE2, CHR 0x9D, CHR 0x8C] @ '' Avoid disturbing roots during this sensitive period'',
        [CHR 0xE2, CHR 0x9D, CHR 0x8C] @ '' Don't let plants experience water stress'',
        [CHR 0xE2, CHR 0x9D, CHR 0x8C] @ '' Avoid excessive pruning of flower clusters'',
        [CHR 0xE2, CHR 0x9D, CHR 0x8C] @ '' Don't use pesticides that harm beneficial pollinators''] \<rparr>"

definition care_Fruiting_and_Ripening :: care where
  "care_Fruiting_and_Ripening = \<lparr>
     title = ''Fruiting and Ripening Stage Care '' @ [CHR 0xF0, CHR 0x9F, CHR 0x8D, CHR 0x85],
     description = ''Congratulations! Your plant is producing fruits. Focus on supporting healthy fruit development.'',
     do = [
        [CHR 0xF0, CHR 0x9F, CHR 0x92, CHR 0xA7] @ '' Maintain consistent, deep watering (1-2 inches per week)'',
        [CHR 0xF0, CHR 0x9F, CHR 0xAA, CHR 0xB4] @ '' Use high-potassium fertilizer to support fruit development'',
        [CHR 0xF0, CHR 0x9F, CHR 0x8F, CHR 0x97, CHR 0xEF, CHR 0xB8, CHR 0x8F] @ '' Provide strong support for heavy fruit-laden branches'',
        [CHR 0xE2, CHR 0x98, CHR 0x80, CHR 0xEF, CHR 0xB8, CHR 0x8F] @ '' Ensure fruits get adequate sunlight for proper ripening'',
        [CHR 0xE2, CHR 0x9C, CHR 0x82, CHR 0xEF, CHR 0xB8, CHR 0x8F] @ '' Prune lower leaves and non-productive branches'',
        [CHR 0xF0, CHR 0x9F, CHR 0x91, CHR 0x80] @ '' Monitor for fruit diseases (blight, cracking, blossom end rot)'',
        [CHR 0xF0, CHR 0x9F, CHR 0x94, CHR 0x84] @ '' Harvest ripe fruits regularly to encourage continued production''],
     dont = [
        [CHR 0xE2, CHR 0x9D, CHR 0x8C] @ '' Don't let soil dry out completely (causes blossom end rot)'',
        [CHR 0xE2, CHR 0x9D, CHR 0x8C] @ '' Avoid irregular watering patterns'',
        [CHR 0xE2, CHR 0x9D, CHR 0x8C] @ '' Don't over-water (can cause fruit cracking)'',
        [CHR 0xE2, CHR 0x9D, CHR 0x8C] @ '' Avoid high-nitrogen fertilizers (reduces fruit quality)'',
        [CHR 0xE2, CHR 0x9D, CHR 0x8C] @ '' Don't harvest fruits too early - let them ripen on vine when possible''] \<rparr>"

definition care_Germination_and_Seedling :: care where
  "care_Germination_and_Seedling = \<lparr>
     title = ''Germination and Seedling Stage Care '' @ [CHR 0xF0, CHR 0x9F, CHR 0x8C, CHR 0xB1],
     description = ''Your tomato is just starting its journey! This delicate stage requires gentle care and attention.'',
     do = [
        [CHR 0xF0, CHR 0x9F, CHR 0x92, CHR 0xA7] @ '' Keep soil consistently moist but not waterlogged'',
        [CHR 0xF0, CHR 0x9F, CHR 0x8C, CHR 0xA1, CHR 0xEF, CHR 0xB8, CHR 0x8F] @ '' Maintain warm temperature (70-80'' @ [CHR 0xC2, CHR 0xB0] @ ''F / 21-27'' @ [CHR 0xC2, CHR 0xB0] @ ''C)'',
        [CHR 0xF0, CHR 0x9F, CHR 0x92, CHR 0xA1] @ '' Provide bright, indirect light (14-16 hours daily)'',
        [CHR 0xF0, CHR 0x9F, CHR 0x8C, CHR 0xB1] @ '' Use seed starting mix or well-draining potting soil'',
        [CHR 0xF0, CHR 0x9F, CHR 0x94, CHR 0x84] @ '' Turn seedlings daily if using artificial lights'',
        [CHR 0xF0, CHR 0x9F, CHR 0xAA, CHR 0xB4] @ '' Start diluted fertilizer once true leaves appear'',
        [CHR 0xF0, CHR 0x9F, CHR 0x8C, CHR 0xAC, CHR 0xEF, CHR 0xB8, CHR 0x8F] @ '' Gradually introduce to outdoor conditions (hardening off)''],
     dont = [
        [CHR 0xE2, CHR 0x9D, CHR 0x8C] @ '' Don't expose to direct sunlight immediately'',
        [CHR 0xE2, CHR 0x9D, CHR 0x8C] @ '' Avoid overwatering (causes damping-off disease)'',
        [CHR 0xE2, CHR 0x9D, CHR 0x8C] @ '' Don't use regular garden soil for seedlings'',
        [CHR 0xE2, CHR 0x9D, CHR 0x8C] @ '' Avoid disturbing roots unnecessarily'',
        [CHR 0xE2, CHR 0x9D, CHR 0x8C] @ '' Don't transplant outdoors until night temperatures stay above 50'' @ [CHR 0xC2, CHR 0xB0] @ ''F (10'' @ [CHR 0xC2, CHR 0xB0] @ ''C)'',
        [CHR 0xE2, CHR 0x9D, CHR 0x8C] @ '' Avoid strong fertilizers on young seedlings''] \<rparr>"

definition care_instructions :: "(nat \<times> care) list" where
  "care_instructions =
     [(0, care_Early_Vegetative),
      (1, care_Flowering_Initiation),
      (2, care_Fruiting_and_Ripening),
      (3, care_Germination_and_Seedling)]"

section \<open>app.py: start-up and \<open>predict_growth_stage\<close>\<close>

text \<open>
  Lines 7 to 12: the module loads the model once. A load that raises an \<^verbatim>\<open>Exception\<close>
  leaves \<^verbatim>\<open>model\<close> unbound and \<^verbatim>\<open>model_loaded\<close> false; anything else ends the
  import.
\<close>

record app_state =
  model :: "classifier option"
  model_loaded :: bool

definition startup :: "pyexc + classifier \<Rightarrow> pyexc + app_state" where
  "startup load_model =
     (case load_model of
        Inr m \<Rightarrow> Inr \<lparr>model = Some m, model_loaded = True\<rparr>
      | Inl e \<Rightarrow>
          if caught_by_except_Exception e
          then Inr \<lparr>model = None, model_loaded = False\<rparr>
          else Inl e)"

text \<open>The calls that leave the function, in the order they are made.\<close>

datatype call = Call_load_img string | Call_predict tensor

type_synonym outputs = "string \<times> string \<times> string"

definition result_text_of :: "env \<Rightarrow> string \<Rightarrow> real \<Rightarrow> string" where
  "result_text_of env predicted_label max_confidence =
     [CHR 0xF0, CHR 0x9F, CHR 0x8E, CHR 0xAF] @ '' **Predicted Stage:** '' @
     predicted_label @
     ''\<newline>'' @
     [CHR 0xF0, CHR 0x9F, CHR 0x93, CHR 0x8A] @ '' **Confidence:** '' @
     fmt_1f env (max_confidence * 100) @
     ''%''"

definition confidence_row ::
  "env \<Rightarrow> string \<Rightarrow> string \<Rightarrow> string \<Rightarrow> string \<Rightarrow> real \<Rightarrow> string \<Rightarrow> string" where
  "confidence_row env border weight text_color label conf_pct bar_color =
     ''\<newline>'' @
     ''            <div style='margin: 15px 0; padding: 12px; border: '' @
     border @
     ''; border-radius: 8px; background: #fafafa;'>\<newline>'' @
     ''                <div style='display: flex; justify-content: space-between; align-items: center; margin-bottom: 8px;'>\<newline>'' @
     ''                    <span style='font-weight: '' @
     weight @
     ''; color: '' @
     text_color @
     ''; font-size: 16px;'>'' @
     label @
     ''</span>\<newline>'' @
     ''                    <span style='font-weight: bold; color: '' @
     text_color @
     ''; font-size: 16px;'>'' @
     fmt_1f env conf_pct @
     ''%</span>\<newline>'' @
     ''                </div>\<newline>'' @
     ''                <div style='width: 100%; height: 12px; background-color: #f0f0f0; border-radius: 6px; overflow: hidden;'>\<newline>'' @
     ''                    <div style='width: '' @
     fmt_str env conf_pct @
     ''%; height: 100%; background: '' @
     bar_color @
     ''; transition: width 0.5s ease; border-radius: 6px;'></div>\<newline>'' @
     ''                </div>\<newline>'' @
     ''            </div>\<newline>'' @
     ''            ''"

text \<open>
  One pass of the loop of lines 153 to 178 over an entry of \<^verbatim>\<open>class_labels.items()\<close>:
  the markup it appends, or the \<^verbatim>\<open>IndexError\<close> of \<^verbatim>\<open>confidences[class_idx]\<close>.
  \<^verbatim>\<open>bar_width\<close> is computed and never used.
\<close>

definition entry_markup :: "env \<Rightarrow> nat \<Rightarrow> nat \<Rightarrow> string \<Rightarrow> real \<Rightarrow> string" where
  \<comment> \<open>the body of the loop once \<^verbatim>\<open>confidences[class_idx]\<close> is read\<close>
  "entry_markup env predicted_class_index class_idx label c =
     (let conf_pct = c * 100;
          bar_width = max 5 (conf_pct * 3);
          (bar_color, text_color, weight, border) =
            (if class_idx = predicted_class_index
             then (''linear-gradient(90deg, #4CAF50, #45a049)'', ''#2d5016'', ''bold'',
                   ''2px solid #4CAF50'')
             else (''linear-gradient(90deg, #e0e0e0, #d0d0d0)'', ''#666'', ''normal'',
                   ''1px solid #ddd''))
      in confidence_row env border weight text_color label conf_pct bar_color)"

definition confidence_entry ::
  "env \<Rightarrow> real list \<Rightarrow> nat \<Rightarrow> nat \<times> string \<Rightarrow> pyexc + string" where
  "confidence_entry env confidences predicted_class_index item =
     (case item of (class_idx, label) \<Rightarrow>
        (case getitem confidences class_idx of
           Inl e \<Rightarrow> Inl e
         | Inr c \<Rightarrow> Inr (entry_markup env predicted_class_index class_idx label c)))"

fun confidence_loop ::
  "env \<Rightarrow> real list \<Rightarrow> nat \<Rightarrow> (nat \<times> string) list \<Rightarrow> string \<Rightarrow> pyexc + string" where
  "confidence_loop env confidences predicted_class_index [] confidence_html =
     Inr confidence_html"
| "confidence_loop env confidences predicted_class_index (item # items) confidence_html =
     (case confidence_entry env confidences predicted_class_index item of
        Inl e \<Rightarrow> Inl e
      | Inr row \<Rightarrow>
          confidence_loop env confidences predicted_class_index items (confidence_html @ row))"

definition care_item :: "string \<Rightarrow> string" where
  "care_item item =
     ''<li style='margin: 8px 0; padding: 5px 0;'>'' @ [CHR 0xE2, CHR 0x80, CHR 0xA2] @ '' '' @
     item @
     ''</li>''"

definition care_html_of :: "care \<Rightarrow> string" where
  "care_html_of care_info =
     ''\<newline>'' @
     ''        <div style='background: linear-gradient(135deg, #f8f9fa, #e9ecef); padding: 25px; border-radius: 15px; box-shadow: 0 6px 12px rgba(0,0,0,0.1); margin: 15px 0;'>\<newline>'' @
     ''            <h2 style='color: #2d5016; margin-bottom: 15px; text-align: center; font-size: 24px;'>'' @
     title care_info @
     ''</h2>\<newline>'' @
     ''            <p style='color: #555; font-size: 16px; text-align: center; margin-bottom: 25px; font-style: italic;'>'' @
     description care_info @
     ''</p>\<newline>'' @
     ''            \<newline>'' @
     ''            <div style='display: grid; grid-template-columns: 1fr 1fr; gap: 20px; margin-top: 20px;'>\<newline>'' @
     ''                <div style='background: #d4edda; padding: 20px; border-radius: 12px; border-left: 5px solid #28a745;'>\<newline>'' @
     ''                    <h3 style='color: #155724; margin-bottom: 15px; font-size: 18px;'>'' @ [CHR 0xE2, CHR 0x9C, CHR 0x85] @ '' What TO DO:</h3>\<newline>'' @
     ''                    <ul style='color: #155724; line-height: 1.8; padding-left: 0; list-style: none;'>\<newline>'' @
     ''        '' @
     concat (map care_item (do care_info)) @
     ''\<newline>'' @
     ''                    </ul>\<newline>'' @
     ''                </div>\<newline>'' @
     ''                \<newline>'' @
     ''                <div style='background: #f8d7da; padding: 20px; border-radius: 12px; border-left: 5px solid #dc3545;'>\<newline>'' @
     ''                    <h3 style='color: #721c24; margin-bottom: 15px; font-size: 18px;'>'' @ [CHR 0xF0, CHR 0x9F, CHR 0x9A, CHR 0xAB] @ '' What NOT TO DO:</h3>\<newline>'' @
     ''                    <ul style='color: #721c24; line-height: 1.8; padding-left: 0; list-style: none;'>\<newline>'' @
     ''        '' @
     concat (map care_item (dont care_info)) @
     ''\<newline>'' @
     ''                    </ul>\<newline>'' @
     ''                </div>\<newline>'' @
     ''            </div>\<newline>'' @
     ''        </div>\<newline>'' @
     ''        ''"

definition confidence_html_open :: string where
  "confidence_html_open =
     ''<div style='background: white; padding: 20px; border-radius: 15px; box-shadow: 0 4px 6px rgba(0,0,0,0.1); margin: 10px 0;'>''"

definition confidence_html_heading :: string where
  "confidence_html_heading =
     ''<h3 style='color: #2d5016; margin-bottom: 15px; text-align: center;'>'' @ [CHR 0xF0, CHR 0x9F, CHR 0x93, CHR 0x88] @ '' Confidence Analysis</h3>''"

text \<open>Lines 135 to 217: from the model's output to the three strings.\<close>

definition present :: "env \<Rightarrow> real list list \<Rightarrow> pyexc + outputs" where
  "present env prediction =
     (case getitem prediction 0 of
        Inl e \<Rightarrow> Inl e
      | Inr confidences \<Rightarrow>
     (case np_argmax confidences of
        Inl e \<Rightarrow> Inl e
      | Inr predicted_class_index \<Rightarrow>
     (case getitem confidences predicted_class_index of
        Inl e \<Rightarrow> Inl e
      | Inr max_confidence \<Rightarrow>
     (case dict_getitem class_labels predicted_class_index of
        Inl e \<Rightarrow> Inl e
      | Inr predicted_label \<Rightarrow>
     (let result_text = result_text_of env predicted_label max_confidence;
          confidence_html = confidence_html_open;
          confidence_html = confidence_html @ confidence_html_heading
      in
     (case confidence_loop env confidences predicted_class_index class_labels confidence_html of
        Inl e \<Rightarrow> Inl e
      | Inr confidence_html \<Rightarrow>
     (let confidence_html = confidence_html @ ''</div>'' in
     (case dict_getitem care_instructions predicted_class_index of
        Inl e \<Rightarrow> Inl e
      | Inr care_info \<Rightarrow>
          Inr (result_text, confidence_html, care_html_of care_info)))))))))"

text \<open>Lines 124 to 132: the guarded block up to the model's answer.\<close>

definition try_block :: "env \<Rightarrow> app_state \<Rightarrow> string \<Rightarrow> (pyexc + outputs) \<times> call list" where
  "try_block env st img_file =
     (case load_img env img_file (img_width, img_height) of
        Inl e \<Rightarrow> (Inl e, [Call_load_img img_file])
      | Inr img \<Rightarrow>
          let img_array = img_to_array img;
              img_array = expand_dims img_array;
              img_array = divide img_array 255
          in (case model st of
                None \<Rightarrow> (Inl (PyExc NameError (Name ''model'')), [Call_load_img img_file])
              | Some m \<Rightarrow>
                  (case m img_array of
                     Inl e \<Rightarrow> (Inl e, [Call_load_img img_file, Call_predict img_array])
                   | Inr prediction \<Rightarrow>
                       (present env prediction,
                        [Call_load_img img_file, Call_predict img_array]))))"

definition model_not_loaded_text :: string where
  "model_not_loaded_text =
     [CHR 0xE2, CHR 0x9D, CHR 0x8C] @ '' Model not loaded. Please check if the model file exists.''"

definition upload_first_text :: string where
  "upload_first_text =
     [CHR 0xF0, CHR 0x9F, CHR 0x93, CHR 0xA4] @ '' Please upload an image first.''"

definition error_text :: "env \<Rightarrow> pyexc \<Rightarrow> string" where
  "error_text env e = [CHR 0xE2, CHR 0x9D, CHR 0x8C] @ '' An error occurred: '' @ str_exc env e"

definition predict_growth_stage ::
  "env \<Rightarrow> app_state \<Rightarrow> string option \<Rightarrow> (pyexc + outputs) \<times> call list" where
  "predict_growth_stage env st img_file =
     (if \<not> model_loaded st then (Inr (model_not_loaded_text, '''', ''''), [])
      else
        (case img_file of
           None \<Rightarrow> (Inr (upload_first_text, '''', ''''), [])
         | Some path \<Rightarrow>
             (case try_block env st path of
                (Inr out, calls) \<Rightarrow> (Inr out, calls)
              | (Inl e, calls) \<Rightarrow>
                  if caught_by_except_Exception e
                  then (Inr (error_text env e, '''', ''''), calls)
                  else (Inl e, calls))))"

section \<open>predict.py\<close>

definition preprocess_image :: "env \<Rightarrow> string \<Rightarrow> pyexc + tensor" where
  "preprocess_image env img_path =
     (case load_img env img_path (img_width, img_height) of
        Inl e \<Rightarrow> Inl e
      | Inr img \<Rightarrow>
          let img_array = img_to_array img;
              img_array = expand_dims img_array;
              img_array = divide img_array 255
          in Inr img_array)"

definition predict_class_labels :: "(nat \<times> string) list" where
  \<comment> \<open>the \<^verbatim>\<open>class_labels\<close> of \<^verbatim>\<open>predict.py\<close>\<close>
  "predict_class_labels =
     [(0, ''Early Vegetative Stage''),
      (1, ''Flowering Initiation Stage''),
      (2, ''Fruiting and Ripening''),
      (3, ''Germination Stage'')]"

text \<open>
  \<^verbatim>\<open>predict_stage\<close> has no handler: it returns the exception that ended it, if any, and
  the lines printed until then.
\<close>

definition predict_stage :: "env \<Rightarrow> classifier \<Rightarrow> string \<Rightarrow> pyexc option \<times> string list" where
  "predict_stage env m img_path =
     (case preprocess_image env img_path of
        Inl e \<Rightarrow> (Some e, [])
      | Inr processed_image \<Rightarrow>
     (case m processed_image of
        Inl e \<Rightarrow> (Some e, [])
      | Inr prediction \<Rightarrow>
     (case getitem prediction 0 of
        Inl e \<Rightarrow> (Some e, [])
      | Inr confidences \<Rightarrow>
     (case np_argmax confidences of
        Inl e \<Rightarrow> (Some e, [])
      | Inr predicted_class_index \<Rightarrow>
     (let line1 = ''Prediction probabilities: '' @ fmt_array env confidences in
     (case dict_getitem predict_class_labels predicted_class_index of
        Inl e \<Rightarrow> (Some e, [line1])
      | Inr label \<Rightarrow>
          (None, [line1, ''The model predicts this plant is in the: '' @ label])))))))"

section \<open>train\_model.py: the output layer\<close>

text \<open>
  The network ends in \<^verbatim>\<open>Dense(4, activation='softmax')\<close>: whatever the layers before
  it compute, the four outputs are the softmax of four numbers.
\<close>

definition softmax :: "real list \<Rightarrow> real list" where
  "softmax z = map (\<lambda>x. exp x / sum_list (map exp z)) z"

section \<open>cleanup.py\<close>



definition lower_char :: "char \<Rightarrow> char" where
  "lower_char c =
     (let n = (of_char c :: nat) in if 65 \<le> n \<and> n \<le> 90 then char_of (n + 32) else c)"

definition lower :: "string \<Rightarrow> string" where
  "lower s = map lower_char s"







section \<open>Sample inputs\<close>

definition nearest :: "pil_image \<Rightarrow> nat \<times> nat \<Rightarrow> nat \<Rightarrow> nat \<Rightarrow> rgb" where
  "nearest src target row col =
     src ! (row * length src div fst target) ! (col * length (src ! 0) div snd target)"

definition sample_env :: env where
  "sample_env =
     \<lparr>decode = (\<lambda>path. if path = ''leaf.png''
                        then Inr [[(0x10, 0x80, 0xFF), (0x00, 0x40, 0x20)]]
                        else Inl (PyExc FileNotFoundError (Message path))),
      resample = nearest,
      fmt_1f = (\<lambda>x. ''60.0''),
      fmt_str = (\<lambda>x. ''60.0''),
      fmt_array = (\<lambda>a. ''[...]''),
      str_exc = (\<lambda>e. case exc_arg e of Message m \<Rightarrow> m | _ \<Rightarrow> ''error'')\<rparr>"

definition sample_classifier :: "real list \<Rightarrow> classifier" where
  "sample_classifier confidences = (\<lambda>t. Inr [confidences])"

definition sample_state :: "real list \<Rightarrow> app_state" where
  "sample_state confidences =
     \<lparr>model = Some (sample_classifier confidences), model_loaded = True\<rparr>"



section \<open>The degraded paths\<close>

lemma predict_not_loaded:
  "\<not> model_loaded st \<Longrightarrow>
   predict_growth_stage env st img_file = (Inr (model_not_loaded_text, '''', ''''), [])"
  by (simp add: predict_growth_stage_def)

lemma startup_failed:
  "caught_by_except_Exception e \<Longrightarrow>
   startup (Inl e) = Inr \<lparr>model = None, model_loaded = False\<rparr>"
  by (simp add: startup_def)

text \<open>
  C1. When loading the model failed at start-up, every call of \<open>predict_growth_stage\<close>,
  with a path or with no input, returns the "model not loaded" message with two empty
  strings, and neither \<open>load_img\<close> nor the model is called.
\<close>

theorem model_unavailable_short_circuit:
  assumes "caught_by_except_Exception e"
  shows "\<exists>st. startup (Inl e) = Inr st \<and> \<not> model_loaded st \<and>
           (\<forall>env img_file.
              predict_growth_stage env st img_file =
                (Inr (model_not_loaded_text, '''', ''''), []))"
  using assms by (simp add: startup_failed predict_not_loaded)

theorem model_unavailable_short_circuit_witness:
  "caught_by_except_Exception (PyExc OSError (Message ''No file or directory found'')) \<and>
   (\<exists>st. startup (Inl (PyExc OSError (Message ''No file or directory found''))) = Inr st \<and>
      predict_growth_stage sample_env st (Some ''leaf.png'') =
        (Inr (model_not_loaded_text, '''', ''''), []) \<and>
      predict_growth_stage sample_env st None =
        (Inr (model_not_loaded_text, '''', ''''), []))"
proof -
  have h: "caught_by_except_Exception (PyExc OSError (Message ''No file or directory found''))"
    by (simp add: caught_by_except_Exception_def)
  from model_unavailable_short_circuit [OF h] show ?thesis
    using h by blast
qed

text \<open>
  C7. With the model loaded, \<open>predict_growth_stage\<close> applied to no input returns the
  "please upload" message with two empty strings, and neither \<open>load_img\<close> nor the model
  is called.
\<close>

theorem no_input_short_circuit:
  assumes "model_loaded st"
  shows "predict_growth_stage env st None = (Inr (upload_first_text, '''', ''''), [])"
  using assms by (simp add: predict_growth_stage_def)

theorem no_input_short_circuit_witness:
  "model_loaded (sample_state [1/10, 2/10, 6/10, 1/10]) \<and>
   predict_growth_stage sample_env (sample_state [1/10, 2/10, 6/10, 1/10]) None =
     (Inr (upload_first_text, '''', ''''), [])"
proof -
  have h: "model_loaded (sample_state [1/10, 2/10, 6/10, 1/10])"
    by (simp add: sample_state_def)
  from no_input_short_circuit [OF h] show ?thesis
    using h by simp
qed

section \<open>\<open>np.argmax\<close> finds the first maximum\<close>

lemma argmax_scan_first_max:
  assumes "length pre = i" "best_i < i" "pre ! best_i = best"
      and "\<forall>j<i. pre ! j \<le> best" "\<forall>j<best_i. pre ! j < best"
  shows "argmax_scan xs i best_i best < length (pre @ xs) \<and>
         (\<forall>j<length (pre @ xs). (pre @ xs) ! j \<le> (pre @ xs) ! argmax_scan xs i best_i best) \<and>
         (\<forall>j<argmax_scan xs i best_i best. (pre @ xs) ! j < (pre @ xs) ! argmax_scan xs i best_i best)"
  using assms
proof (induction xs arbitrary: pre i best_i best)
  case Nil
  then show ?case by simp
next
  case (Cons x xs)
  let ?pre = "pre @ [x]"
  have len: "length ?pre = Suc i" using Cons.prems(1) by simp
  show ?case
  proof (cases "best < x")
    case True
    have a: "i < Suc i" by simp
    have b: "?pre ! i = x" using Cons.prems(1) by (simp add: nth_append)
    have c: "\<forall>j<Suc i. ?pre ! j \<le> x"
    proof (intro allI impI)
      fix j assume "j < Suc i"
      then show "?pre ! j \<le> x"
        using Cons.prems(1,4) True by (cases "j = i") (auto simp: nth_append less_Suc_eq dest: spec[of _ j])
    qed
    have d: "\<forall>j<i. ?pre ! j < x"
      using Cons.prems(1,4) True by (auto simp: nth_append dest: spec[of _ j] intro: le_less_trans)
    from Cons.IH [OF len a b c d] True show ?thesis by simp
  next
    case False
    have a: "best_i < Suc i" using Cons.prems(2) by simp
    have b: "?pre ! best_i = best" using Cons.prems(1,2,3) by (simp add: nth_append)
    have c: "\<forall>j<Suc i. ?pre ! j \<le> best"
      using Cons.prems(1,4) False by (auto simp: nth_append less_Suc_eq)
    have d: "\<forall>j<best_i. ?pre ! j < best"
      using Cons.prems(1,2,5) by (auto simp: nth_append)
    from Cons.IH [OF len a b c d] False show ?thesis by simp
  qed
qed

lemma np_argmax_first_max:
  assumes "np_argmax c = Inr i"
  shows "i < length c \<and> (\<forall>j<length c. c ! j \<le> c ! i) \<and> (\<forall>j<i. c ! j < c ! i)"
proof (cases c)
  case Nil
  with assms show ?thesis by (simp add: np_argmax_def)
next
  case (Cons x xs)
  with assms have i: "i = argmax_scan xs 1 0 x" by (simp add: np_argmax_def)
  have "argmax_scan xs 1 0 x < length ([x] @ xs) \<and>
         (\<forall>j<length ([x] @ xs). ([x] @ xs) ! j \<le> ([x] @ xs) ! argmax_scan xs 1 0 x) \<and>
         (\<forall>j<argmax_scan xs 1 0 x. ([x] @ xs) ! j < ([x] @ xs) ! argmax_scan xs 1 0 x)"
    by (rule argmax_scan_first_max) simp_all
  with i Cons show ?thesis by simp
qed

lemma np_argmax_Max:
  assumes "np_argmax c = Inr i"
  shows "c ! i = Max (set c)"
proof -
  from np_argmax_first_max [OF assms]
  have i: "i < length c" and le: "\<forall>j<length c. c ! j \<le> c ! i" by auto
  show ?thesis
  proof (rule Max_eqI [symmetric])
    show "finite (set c)" by simp
    show "c ! i \<in> set c" using i by simp
    fix y assume "y \<in> set c"
    then obtain j where "j < length c" "c ! j = y" by (auto simp: in_set_conv_nth)
    with le show "y \<le> c ! i" by auto
  qed
qed

lemma np_argmax_nonempty: "c \<noteq> [] \<Longrightarrow> \<exists>i. np_argmax c = Inr i"
  by (cases c) (simp_all add: np_argmax_def)

lemma np_argmax_raises: "np_argmax c = Inl e \<Longrightarrow> e = PyExc ValueError Empty_sequence"
  by (cases c) (simp_all add: np_argmax_def)

section \<open>The catalog and the loop over it\<close>

lemma class_labels_keys: "map fst class_labels = [0, 1, 2, 3]"
  by (simp add: class_labels_def)

lemma care_instructions_keys: "map fst care_instructions = [0, 1, 2, 3]"
  by (simp add: care_instructions_def)

lemma map_of_Some_iff_key: "(\<exists>v. map_of d k = Some v) \<longleftrightarrow> k \<in> set (map fst d)"
  using map_of_eq_None_iff [of d k] by auto

lemma class_labels_declared: "(\<exists>label. map_of class_labels i = Some label) \<longleftrightarrow> i < 4"
  unfolding map_of_Some_iff_key class_labels_keys by auto

lemma care_instructions_declared: "(\<exists>r. map_of care_instructions i = Some r) \<longleftrightarrow> i < 4"
  unfolding map_of_Some_iff_key care_instructions_keys by auto

lemma dict_getitem_Inr: "dict_getitem d k = Inr v \<longleftrightarrow> map_of d k = Some v"
  by (simp add: dict_getitem_def split: option.splits)

lemma dict_getitem_Inl: "dict_getitem d k = Inl e \<longleftrightarrow> map_of d k = None \<and> e = PyExc KeyError (Key k)"
  by (auto simp: dict_getitem_def split: option.splits)

lemma getitem_Inr: "getitem xs i = Inr x \<longleftrightarrow> i < length xs \<and> x = xs ! i"
  by (auto simp: getitem_def)

lemma getitem_Inl: "getitem xs i = Inl e \<longleftrightarrow> length xs \<le> i \<and> e = PyExc IndexError (Index i (length xs))"
  by (auto simp: getitem_def)

lemma confidence_entry_Inr:
  "confidence_entry env c i item = Inr row \<longleftrightarrow>
     fst item < length c \<and> row = entry_markup env i (fst item) (snd item) (c ! fst item)"
  by (cases item) (auto simp: confidence_entry_def getitem_def)

lemma confidence_entry_Inl:
  "confidence_entry env c i item = Inl e \<longleftrightarrow>
     length c \<le> fst item \<and> e = PyExc IndexError (Index (fst item) (length c))"
  by (cases item) (auto simp: confidence_entry_def getitem_def)

lemma confidence_loop_Inr:
  "confidence_loop env c i items html = Inr h \<longleftrightarrow>
     (\<forall>item\<in>set items. fst item < length c) \<and>
     h = html @ concat (map (\<lambda>(class_idx, label). entry_markup env i class_idx label (c ! class_idx)) items)"
proof (induction items arbitrary: html)
  case Nil
  then show ?case by auto
next
  case (Cons item items)
  show ?case
  proof (cases "confidence_entry env c i item")
    case (Inl e)
    then have "length c \<le> fst item" by (simp add: confidence_entry_Inl)
    with Inl show ?thesis by auto
  next
    case (Inr row)
    then have "fst item < length c" and "row = entry_markup env i (fst item) (snd item) (c ! fst item)"
      by (simp_all add: confidence_entry_Inr)
    with Inr Cons.IH [of "html @ row"] show ?thesis
      by (cases item) auto
  qed
qed

lemma confidence_loop_Inl:
  "confidence_loop env c i items html = Inl e \<Longrightarrow> exc_class e = IndexError"
proof (induction items arbitrary: html)
  case Nil
  then show ?case by simp
next
  case (Cons item items)
  then show ?case
    by (cases "confidence_entry env c i item") (auto simp: confidence_entry_Inl)
qed

section \<open>From the model's output to the three strings\<close>

lemma present_unfold:
  "present env (c # rest) =
     (case np_argmax c of
        Inl e \<Rightarrow> Inl e
      | Inr i \<Rightarrow>
     (case dict_getitem class_labels i of
        Inl e \<Rightarrow> Inl e
      | Inr label \<Rightarrow>
     (case confidence_loop env c i class_labels (confidence_html_open @ confidence_html_heading) of
        Inl e \<Rightarrow> Inl e
      | Inr h \<Rightarrow>
     (case dict_getitem care_instructions i of
        Inl e \<Rightarrow> Inl e
      | Inr r \<Rightarrow> Inr (result_text_of env label (c ! i), h @ ''</div>'', care_html_of r)))))"
proof (cases "np_argmax c")
  case (Inl e)
  then show ?thesis by (simp add: present_def getitem_def)
next
  case (Inr i)
  then have "i < length c" using np_argmax_first_max by blast
  with Inr show ?thesis
    by (simp add: present_def getitem_def Let_def split: sum.splits)
qed

lemma catalog_rows_in_range:
  "(\<forall>item\<in>set class_labels. fst item < n) \<longleftrightarrow> 4 \<le> n"
proof -
  have "(\<forall>item\<in>set class_labels. fst item < n) \<longleftrightarrow> (\<forall>k\<in>set (map fst class_labels). k < n)"
    by auto
  also have "\<dots> \<longleftrightarrow> 4 \<le> n" unfolding class_labels_keys by auto
  finally show ?thesis .
qed

lemma present_Inr:
  "present env (c # rest) = Inr out \<longleftrightarrow>
     (\<exists>i label r. np_argmax c = Inr i \<and> map_of class_labels i = Some label \<and>
        map_of care_instructions i = Some r \<and> 4 \<le> length c \<and>
        out = (result_text_of env label (c ! i),
               confidence_html_open @ confidence_html_heading @
               concat (map (\<lambda>(class_idx, label).
                              entry_markup env i class_idx label (c ! class_idx)) class_labels) @
               ''</div>'',
               care_html_of r))"
proof (cases "np_argmax c")
  case (Inl e)
  then show ?thesis by (simp add: present_unfold)
next
  case i: (Inr i)
  show ?thesis
  proof (cases "map_of class_labels i")
    case None
    with i show ?thesis by (simp add: present_unfold dict_getitem_def)
  next
    case label: (Some label)
    then have "i < 4" using class_labels_declared by blast
    then obtain r where r: "map_of care_instructions i = Some r"
      using care_instructions_declared by blast
    show ?thesis
    proof (cases "confidence_loop env c i class_labels
                    (confidence_html_open @ confidence_html_heading)")
      case (Inl e)
      then have "\<not> 4 \<le> length c"
        using confidence_loop_Inr [of env c i class_labels
                 "confidence_html_open @ confidence_html_heading"]
        by (auto simp: catalog_rows_in_range)
      with i label r Inl show ?thesis
        by (simp add: present_unfold dict_getitem_def)
    next
      case (Inr h)
      then have "4 \<le> length c"
        and "h = (confidence_html_open @ confidence_html_heading) @
                 concat (map (\<lambda>(class_idx, label).
                                entry_markup env i class_idx label (c ! class_idx)) class_labels)"
        by (simp_all add: confidence_loop_Inr catalog_rows_in_range)
      with i label r Inr show ?thesis
        by (auto simp: present_unfold dict_getitem_def)
    qed
  qed
qed

lemma present_four_values:
  assumes len: "length confidences = 4"
  shows "\<exists>out. present env (confidences # rest) = Inr out"
proof -
  from len have "confidences \<noteq> []" by auto
  then obtain i where i: "np_argmax confidences = Inr i" using np_argmax_nonempty by blast
  then have "i < 4" using np_argmax_first_max [OF i] len by simp
  then obtain label r where "map_of class_labels i = Some label" "map_of care_instructions i = Some r"
    using class_labels_declared care_instructions_declared by blast
  with i len show ?thesis
    unfolding present_Inr by auto
qed

lemma present_Inl:
  assumes "present env prediction = Inl e"
  shows "exc_class e \<in> {IndexError, ValueError, KeyError}"
proof (cases prediction)
  case Nil
  with assms show ?thesis by (auto simp: present_def getitem_def)
next
  case (Cons c rest)
  with assms have "present env (c # rest) = Inl e" by simp
  then show ?thesis
    unfolding present_unfold
    by (auto simp: dict_getitem_Inl split: sum.splits
             dest: np_argmax_raises confidence_loop_Inl)
qed

section \<open>The guarded block\<close>

lemma preprocess_image_decoded:
  assumes "decode env path = Inr src"
  shows "preprocess_image env path =
           Inr [map (\<lambda>row. map (\<lambda>col. case resample env src (img_width, img_height) row col of
                                         (r, g, b) \<Rightarrow> [real (unat r) / 255, real (unat g) / 255,
                                                       real (unat b) / 255])
                                 [0..<img_height])
                    [0..<img_width]]"
  using assms
  by (simp add: preprocess_image_def load_img_def img_to_array_def expand_dims_def divide_def
        split_def)

lemma preprocess_image_Inl:
  "preprocess_image env path = Inl e \<longleftrightarrow> decode env path = Inl e"
  by (simp add: preprocess_image_def load_img_def Let_def split: sum.splits)

lemma try_block_unfold:
  "try_block env st path =
     (case preprocess_image env path of
        Inl e \<Rightarrow> (Inl e, [Call_load_img path])
      | Inr t \<Rightarrow>
          (case model st of
             None \<Rightarrow> (Inl (PyExc NameError (Name ''model'')), [Call_load_img path])
           | Some m \<Rightarrow>
               (case m t of
                  Inl e \<Rightarrow> (Inl e, [Call_load_img path, Call_predict t])
                | Inr prediction \<Rightarrow>
                    (present env prediction, [Call_load_img path, Call_predict t]))))"
  by (simp add: try_block_def preprocess_image_def Let_def split: sum.splits)

lemma predict_growth_stage_classified:
  assumes "model_loaded st" "model st = Some m"
      and "preprocess_image env path = Inr t" "m t = Inr prediction"
  shows "predict_growth_stage env st (Some path) =
           ((case present env prediction of
               Inl e \<Rightarrow> Inr (error_text env e, '''', '''')
             | Inr out \<Rightarrow> Inr out),
            [Call_load_img path, Call_predict t])"
proof (cases "present env prediction")
  case (Inl e)
  then have "caught_by_except_Exception e"
    using present_Inl [of env prediction e]
    by (auto simp: caught_by_except_Exception_def)
  with Inl assms show ?thesis
    by (simp add: predict_growth_stage_def try_block_unfold)
next
  case (Inr out)
  with assms show ?thesis
    by (simp add: predict_growth_stage_def try_block_unfold)
qed

lemma sample_decode:
  "decode sample_env ''leaf.png'' = Inr [[(0x10, 0x80, 0xFF), (0x00, 0x40, 0x20)]]"
  by (simp add: sample_env_def)

lemma sample_preprocess: "\<exists>t. preprocess_image sample_env ''leaf.png'' = Inr t"
  using preprocess_image_decoded [OF sample_decode] by blast

section \<open>The predicted label\<close>

text \<open>
  C2. Whenever the model's first output row \<open>confidences\<close> is turned into a result, the
  predicted index \<open>i\<close> is the position of the largest entry of the row, the first one
  among equals; the label shown is the catalog's label for \<open>i\<close> and the confidence shown
  is \<open>confidences ! i\<close>. A row of four values always yields a result.
\<close>

theorem predicted_label_is_first_maximum:
  assumes "model_loaded st" "model st = Some m"
      and "preprocess_image env path = Inr t" "m t = Inr (confidences # rest)"
  shows "(\<forall>out. present env (confidences # rest) = Inr out \<longrightarrow>
            (\<exists>i label confidence_html care_html.
               np_argmax confidences = Inr i \<and> i < length confidences \<and>
               confidences ! i = Max (set confidences) \<and>
               (\<forall>j<i. confidences ! j < confidences ! i) \<and>
               map_of class_labels i = Some label \<and>
               out = (result_text_of env label (confidences ! i), confidence_html, care_html) \<and>
               predict_growth_stage env st (Some path) =
                 (Inr out, [Call_load_img path, Call_predict t]))) \<and>
         (length confidences = 4 \<longrightarrow> (\<exists>out. present env (confidences # rest) = Inr out))"
proof (intro conjI allI impI)
  fix out
  assume ok: "present env (confidences # rest) = Inr out"
  then obtain i label r where i: "np_argmax confidences = Inr i"
    and label: "map_of class_labels i = Some label"
    and out: "out = (result_text_of env label (confidences ! i),
               confidence_html_open @ confidence_html_heading @
               concat (map (\<lambda>(class_idx, label).
                  entry_markup env i class_idx label (confidences ! class_idx)) class_labels) @
               ''</div>'',
               care_html_of r)"
    unfolding present_Inr by blast
  have "predict_growth_stage env st (Some path) = (Inr out, [Call_load_img path, Call_predict t])"
    using predict_growth_stage_classified [OF assms] ok by simp
  with i label out np_argmax_first_max [OF i] np_argmax_Max [OF i]
  show "\<exists>i label confidence_html care_html.
               np_argmax confidences = Inr i \<and> i < length confidences \<and>
               confidences ! i = Max (set confidences) \<and>
               (\<forall>j<i. confidences ! j < confidences ! i) \<and>
               map_of class_labels i = Some label \<and>
               out = (result_text_of env label (confidences ! i), confidence_html, care_html) \<and>
               predict_growth_stage env st (Some path) =
                 (Inr out, [Call_load_img path, Call_predict t])"
    by blast
next
  assume "length confidences = 4"
  then show "\<exists>out. present env (confidences # rest) = Inr out"
    by (rule present_four_values)
qed

theorem predicted_label_is_first_maximum_witness:
  "\<exists>t label confidence_html care_html.
     np_argmax [1/10, 6/10, 6/10, 2/10] = Inr 1 \<and>
     map_of class_labels 1 = Some label \<and>
     predict_growth_stage sample_env (sample_state [1/10, 6/10, 6/10, 2/10]) (Some ''leaf.png'') =
       (Inr (result_text_of sample_env label ([1/10, 6/10, 6/10, 2/10] ! 1),
             confidence_html, care_html),
        [Call_load_img ''leaf.png'', Call_predict t])"
proof -
  let ?c = "[1/10, 6/10, 6/10, 2/10] :: real list"
  obtain t where t: "preprocess_image sample_env ''leaf.png'' = Inr t"
    using sample_preprocess by blast
  have a: "model_loaded (sample_state ?c)" by (simp add: sample_state_def)
  have b: "model (sample_state ?c) = Some (sample_classifier ?c)" by (simp add: sample_state_def)
  have c: "sample_classifier ?c t = Inr (?c # [])" by (simp add: sample_classifier_def)
  have i: "np_argmax ?c = Inr 1" by (simp add: np_argmax_def)
  from predicted_label_is_first_maximum [OF a b t c]
  obtain out where "present sample_env (?c # []) = Inr out" by auto
  with predicted_label_is_first_maximum [OF a b t c] i show ?thesis
    by (metis Inr_inject)
qed

text \<open>\<^verbatim>\<open>predict.py\<close> prints the label of the same index, from its own table.\<close>

lemma predict_class_labels_keys: "map fst predict_class_labels = [0, 1, 2, 3]"
  by (simp add: predict_class_labels_def)

lemma predict_stage_prints_first_maximum:
  assumes "preprocess_image env img_path = Inr t" "m t = Inr (confidences # rest)"
      and "length confidences = 4"
  shows "\<exists>i label. np_argmax confidences = Inr i \<and>
           confidences ! i = Max (set confidences) \<and>
           (\<forall>j<i. confidences ! j < confidences ! i) \<and>
           map_of predict_class_labels i = Some label \<and>
           predict_stage env m img_path =
             (None, [''Prediction probabilities: '' @ fmt_array env confidences,
                     ''The model predicts this plant is in the: '' @ label])"
proof -
  from assms(3) have "confidences \<noteq> []" by auto
  then obtain i where i: "np_argmax confidences = Inr i" using np_argmax_nonempty by blast
  then have "i < 4" using np_argmax_first_max [OF i] assms(3) by simp
  then have "i \<in> set (map fst predict_class_labels)"
    unfolding predict_class_labels_keys by auto
  then obtain label where label: "map_of predict_class_labels i = Some label"
    using map_of_Some_iff_key [of predict_class_labels i] by blast
  have "predict_stage env m img_path =
             (None, [''Prediction probabilities: '' @ fmt_array env confidences,
                     ''The model predicts this plant is in the: '' @ label])"
    using assms(1,2) i label
    by (simp add: predict_stage_def getitem_def dict_getitem_def)
  with i label np_argmax_first_max [OF i] np_argmax_Max [OF i] show ?thesis by blast
qed

section \<open>The preprocessed tensor\<close>

lemma byte_unit: "n \<le> 255 \<Longrightarrow> 0 \<le> real n / 255 \<and> real n / 255 \<le> 1"
  by simp

lemma unat_byte_unit: "0 \<le> real (unat (w :: 8 word)) / 255 \<and> real (unat w) / 255 \<le> 1"
proof -
  have "unat w < 2 ^ LENGTH(8)" by (rule unsigned_less)
  then have "unat w \<le> 255" by simp
  then show ?thesis by (rule byte_unit)
qed

lemma channels_unit:
  fixes p :: rgb
  assumes "v \<in> set (case p of (r, g, b) \<Rightarrow>
                      [real (unat r) / 255, real (unat g) / 255, real (unat b) / 255])"
  shows "0 \<le> v \<and> v \<le> 1"
proof -
  obtain r g b where p: "p = (r, g, b)" by (cases p)
  from assms have "v = real (unat r) / 255 \<or> v = real (unat g) / 255 \<or> v = real (unat b) / 255"
    unfolding p by (simp only: prod.case list.set insert_iff empty_iff simp_thms)
  with unat_byte_unit [of r] unat_byte_unit [of g] unat_byte_unit [of b]
  show ?thesis by blast
qed

lemma channels_length:
  fixes p :: rgb
  shows "length (case p of (r, g, b) \<Rightarrow>
                   [real (unat r) / 255, real (unat g) / 255, real (unat b) / 255]) = 3"
  by (cases p) simp

text \<open>
  C5. For every file that decodes, at whatever resolution, \<open>preprocess_image\<close> returns a
  tensor of shape 1 x 224 x 224 x 3 with all values between 0 and 1: the pixel at a row and a
  column is the resized source's pixel there, each channel divided by 255. The block of
  \<open>app.py\<close> hands the same tensor to the model.
\<close>

theorem preprocessed_tensor_shape_and_range:
  assumes "decode env path = Inr src"
  shows "\<exists>t. preprocess_image env path = Inr t \<and>
           length t = 1 \<and>
           (\<forall>a\<in>set t. length a = 224 \<and>
              (\<forall>row\<in>set a. length row = 224 \<and>
                 (\<forall>px\<in>set row. length px = 3 \<and> (\<forall>v\<in>set px. 0 \<le> v \<and> v \<le> 1)))) \<and>
           (\<forall>row<224. \<forall>col<224.
              t ! 0 ! row ! col =
                (case resample env src (224, 224) row col of
                   (r, g, b) \<Rightarrow> [real (unat r) / 255, real (unat g) / 255, real (unat b) / 255])) \<and>
           (\<forall>st m. model_loaded st \<and> model st = Some m \<longrightarrow>
              snd (predict_growth_stage env st (Some path)) =
                [Call_load_img path, Call_predict t])"
proof -
  let ?px = "\<lambda>row col. case resample env src (img_width, img_height) row col of
               (r, g, b) \<Rightarrow> [real (unat r) / 255, real (unat g) / 255, real (unat b) / 255]"
  let ?img = "map (\<lambda>row. map (\<lambda>col. ?px row col) [0..<img_height]) [0..<img_width]"
  let ?t = "[?img]"
  have t: "preprocess_image env path = Inr ?t"
    by (rule preprocess_image_decoded [OF assms])
  have len: "length ?t = 1" by simp
  have rows: "length ?img = 224" by (simp add: img_width_def)
  have inner: "\<forall>row\<in>set ?img. length row = 224 \<and>
                 (\<forall>px\<in>set row. length px = 3 \<and> (\<forall>v\<in>set px. 0 \<le> v \<and> v \<le> 1))"
  proof
    fix row assume "row \<in> set ?img"
    then obtain y where row: "row = map (\<lambda>col. ?px y col) [0..<img_height]" by auto
    have "length row = 224" unfolding row by (simp add: img_height_def)
    moreover have "\<forall>px\<in>set row. length px = 3 \<and> (\<forall>v\<in>set px. 0 \<le> v \<and> v \<le> 1)"
    proof
      fix px assume "px \<in> set row"
      then obtain x where px: "px = ?px y x" unfolding row by auto
      show "length px = 3 \<and> (\<forall>v\<in>set px. 0 \<le> v \<and> v \<le> 1)"
        unfolding px using channels_length channels_unit by blast
    qed
    ultimately show "length row = 224 \<and>
                 (\<forall>px\<in>set row. length px = 3 \<and> (\<forall>v\<in>set px. 0 \<le> v \<and> v \<le> 1))"
      by blast
  qed
  have shape: "\<forall>a\<in>set ?t. length a = 224 \<and>
              (\<forall>row\<in>set a. length row = 224 \<and>
                 (\<forall>px\<in>set row. length px = 3 \<and> (\<forall>v\<in>set px. 0 \<le> v \<and> v \<le> 1)))"
  proof
    fix a assume "a \<in> set ?t"
    then have "a = ?img" by simp
    with rows inner show "length a = 224 \<and>
              (\<forall>row\<in>set a. length row = 224 \<and>
                 (\<forall>px\<in>set row. length px = 3 \<and> (\<forall>v\<in>set px. 0 \<le> v \<and> v \<le> 1)))"
      by blast
  qed
  have px: "\<forall>row<224. \<forall>col<224. ?t ! 0 ! row ! col =
                (case resample env src (224, 224) row col of
                   (r, g, b) \<Rightarrow> [real (unat r) / 255, real (unat g) / 255, real (unat b) / 255])"
    by (simp add: img_width_def img_height_def)
  have calls: "\<forall>st m. model_loaded st \<and> model st = Some m \<longrightarrow>
              snd (predict_growth_stage env st (Some path)) =
                [Call_load_img path, Call_predict ?t]"
  proof (intro allI impI)
    fix st :: app_state and m
    assume "model_loaded st \<and> model st = Some m"
    with t show "snd (predict_growth_stage env st (Some path)) =
                [Call_load_img path, Call_predict ?t]"
      by (cases "m ?t") (simp_all add: predict_growth_stage_def try_block_unfold split: sum.splits)
  qed
  show ?thesis
  proof (intro exI [of _ ?t] conjI)
    show "preprocess_image env path = Inr ?t" by (fact t)
    show "length ?t = 1" by (fact len)
    show "\<forall>a\<in>set ?t. length a = 224 \<and>
              (\<forall>row\<in>set a. length row = 224 \<and>
                 (\<forall>px\<in>set row. length px = 3 \<and> (\<forall>v\<in>set px. 0 \<le> v \<and> v \<le> 1)))"
      by (fact shape)
    show "\<forall>row<224. \<forall>col<224. ?t ! 0 ! row ! col =
                (case resample env src (224, 224) row col of
                   (r, g, b) \<Rightarrow> [real (unat r) / 255, real (unat g) / 255, real (unat b) / 255])"
      by (fact px)
    show "\<forall>st m. model_loaded st \<and> model st = Some m \<longrightarrow>
              snd (predict_growth_stage env st (Some path)) =
                [Call_load_img path, Call_predict ?t]"
      by (fact calls)
  qed
qed

theorem preprocessed_tensor_shape_and_range_witness:
  "decode sample_env ''leaf.png'' = Inr [[(0x10, 0x80, 0xFF), (0x00, 0x40, 0x20)]] \<and>
   (\<exists>t. preprocess_image sample_env ''leaf.png'' = Inr t \<and>
      length t = 1 \<and> length (t ! 0) = 224 \<and> length (t ! 0 ! 0) = 224 \<and>
      t ! 0 ! 0 ! 0 = [16 / 255, 128 / 255, 1] \<and>
      t ! 0 ! 0 ! 223 = [0, 64 / 255, 32 / 255] \<and>
      snd (predict_growth_stage sample_env (sample_state [1/10, 2/10, 6/10, 1/10])
             (Some ''leaf.png'')) = [Call_load_img ''leaf.png'', Call_predict t])"
proof -
  have h: "decode sample_env ''leaf.png'' = Inr [[(0x10, 0x80, 0xFF), (0x00, 0x40, 0x20)]]"
    by (rule sample_decode)
  obtain t where t: "preprocess_image sample_env ''leaf.png'' = Inr t"
    and len: "length t = 1"
    and shape: "\<forall>a\<in>set t. length a = 224 \<and>
              (\<forall>row\<in>set a. length row = 224 \<and>
                 (\<forall>px\<in>set row. length px = 3 \<and> (\<forall>v\<in>set px. 0 \<le> v \<and> v \<le> 1)))"
    and px: "\<forall>row<224. \<forall>col<224.
              t ! 0 ! row ! col =
                (case resample sample_env [[(0x10, 0x80, 0xFF), (0x00, 0x40, 0x20)]] (224, 224) row col of
                   (r, g, b) \<Rightarrow> [real (unat r) / 255, real (unat g) / 255, real (unat b) / 255])"
    and calls: "\<forall>st m. model_loaded st \<and> model st = Some m \<longrightarrow>
              snd (predict_growth_stage sample_env st (Some ''leaf.png'')) =
                [Call_load_img ''leaf.png'', Call_predict t]"
    using preprocessed_tensor_shape_and_range [OF h] by blast
  from len have t0: "t ! 0 \<in> set t" by simp
  with shape have l0: "length (t ! 0) = 224" by blast
  then have "t ! 0 ! 0 \<in> set (t ! 0)" by simp
  with shape t0 have l00: "length (t ! 0 ! 0) = 224" by blast
  have p0: "t ! 0 ! 0 ! 0 = [16 / 255, 128 / 255, 1]"
    using px by (simp add: sample_env_def nearest_def)
  have p1: "t ! 0 ! 0 ! 223 = [0, 64 / 255, 32 / 255]"
    using px by (simp add: sample_env_def nearest_def)
  have c: "snd (predict_growth_stage sample_env (sample_state [1/10, 2/10, 6/10, 1/10])
             (Some ''leaf.png'')) = [Call_load_img ''leaf.png'', Call_predict t]"
    using calls by (simp add: sample_state_def)
  from h t len l0 l00 p0 p1 c show ?thesis by blast
qed

section \<open>Failures inside the guarded block\<close>

lemma try_block_decode_fails:
  "decode env path = Inl e \<Longrightarrow> try_block env st path = (Inl e, [Call_load_img path])"
  by (simp add: try_block_unfold preprocess_image_Inl [symmetric])

lemma try_block_raises_caught:
  assumes dec: "\<forall>path e. decode env path = Inl e \<longrightarrow> caught_by_except_Exception e"
      and mdl: "\<forall>m t e. model st = Some m \<and> m t = Inl e \<longrightarrow> caught_by_except_Exception e"
      and raised: "try_block env st path = (Inl e, calls)"
  shows "caught_by_except_Exception e"
proof (cases "preprocess_image env path")
  case (Inl e')
  with raised have "e' = e" by (simp add: try_block_unfold)
  with Inl dec show ?thesis by (simp add: preprocess_image_Inl)
next
  case t: (Inr t)
  show ?thesis
  proof (cases "model st")
    case None
    with t raised have "e = PyExc NameError (Name ''model'')" by (simp add: try_block_unfold)
    then show ?thesis by (simp add: caught_by_except_Exception_def)
  next
    case m: (Some m)
    show ?thesis
    proof (cases "m t")
      case (Inl e')
      with t m raised have "e' = e" by (simp add: try_block_unfold)
      with Inl m mdl show ?thesis by blast
    next
      case (Inr prediction)
      with t m raised have "present env prediction = Inl e" by (simp add: try_block_unfold)
      then have "exc_class e \<in> {IndexError, ValueError, KeyError}" by (rule present_Inl)
      then show ?thesis by (auto simp: caught_by_except_Exception_def)
    qed
  qed
qed

lemma predict_growth_stage_raised:
  assumes "model_loaded st" "try_block env st path = (Inl e, calls)"
      and "caught_by_except_Exception e"
  shows "predict_growth_stage env st (Some path) = (Inr (error_text env e, '''', ''''), calls)"
  using assms by (simp add: predict_growth_stage_def)

lemma predict_growth_stage_returned:
  assumes "model_loaded st" "try_block env st path = (Inr out, calls)"
  shows "predict_growth_stage env st (Some path) = (Inr out, calls)"
  using assms by (simp add: predict_growth_stage_def)

lemma predict_growth_stage_cases:
  assumes dec: "\<forall>path e. decode env path = Inl e \<longrightarrow> caught_by_except_Exception e"
      and mdl: "\<forall>m t e. model st = Some m \<and> m t = Inl e \<longrightarrow> caught_by_except_Exception e"
  shows "fst (predict_growth_stage env st img_file) =
           (if \<not> model_loaded st then Inr (model_not_loaded_text, '''', '''')
            else case img_file of
                   None \<Rightarrow> Inr (upload_first_text, '''', '''')
                 | Some path \<Rightarrow>
                     (case fst (try_block env st path) of
                        Inl e \<Rightarrow> Inr (error_text env e, '''', '''')
                      | Inr out \<Rightarrow> Inr out))"
proof (cases "model_loaded st")
  case False
  then show ?thesis by (simp add: predict_growth_stage_def)
next
  case loaded: True
  show ?thesis
  proof (cases img_file)
    case None
    with loaded show ?thesis by (simp add: predict_growth_stage_def)
  next
    case (Some path)
    obtain r calls where tb: "try_block env st path = (r, calls)" by (cases "try_block env st path")
    show ?thesis
    proof (cases r)
      case (Inl e)
      with tb have "caught_by_except_Exception e"
        using try_block_raises_caught [OF dec mdl] by blast
      with loaded tb Inl Some show ?thesis
        by (simp add: predict_growth_stage_raised)
    next
      case (Inr out)
      with loaded tb Some show ?thesis
        by (simp add: predict_growth_stage_returned)
    qed
  qed
qed

text \<open>
  C3. Provided what the decoder and the model raise are instances of \<open>Exception\<close>,
  \<open>predict_growth_stage\<close> never lets an exception through: whatever the guarded block
  raises, the path that cannot be read or decoded and the failing inference included, comes
  back as the message built from it with two empty strings.
\<close>

theorem per_call_failures_are_caught:
  assumes dec: "\<forall>path e. decode env path = Inl e \<longrightarrow> caught_by_except_Exception e"
      and mdl: "\<forall>m t e. model st = Some m \<and> m t = Inl e \<longrightarrow> caught_by_except_Exception e"
  shows "(\<exists>out. fst (predict_growth_stage env st img_file) = Inr out) \<and>
         (\<forall>path e calls.
            model_loaded st \<and> try_block env st path = (Inl e, calls) \<longrightarrow>
            predict_growth_stage env st (Some path) =
              (Inr (error_text env e, '''', ''''), calls)) \<and>
         (\<forall>path e.
            model_loaded st \<and> decode env path = Inl e \<longrightarrow>
            predict_growth_stage env st (Some path) =
              (Inr (error_text env e, '''', ''''), [Call_load_img path])) \<and>
         (\<forall>path m t e.
            model_loaded st \<and> model st = Some m \<and>
            preprocess_image env path = Inr t \<and> m t = Inl e \<longrightarrow>
            predict_growth_stage env st (Some path) =
              (Inr (error_text env e, '''', ''''), [Call_load_img path, Call_predict t]))"
proof (intro conjI allI impI)
  show "\<exists>out. fst (predict_growth_stage env st img_file) = Inr out"
    unfolding predict_growth_stage_cases [OF dec mdl]
    by (simp split: option.splits sum.splits)
next
  fix path e calls
  assume a: "model_loaded st \<and> try_block env st path = (Inl e, calls)"
  then have "caught_by_except_Exception e"
    using try_block_raises_caught [OF dec mdl] by blast
  with a show "predict_growth_stage env st (Some path) =
              (Inr (error_text env e, '''', ''''), calls)"
    by (simp add: predict_growth_stage_raised)
next
  fix path e
  assume a: "model_loaded st \<and> decode env path = Inl e"
  then have "caught_by_except_Exception e" using dec by blast
  with a show "predict_growth_stage env st (Some path) =
              (Inr (error_text env e, '''', ''''), [Call_load_img path])"
    by (simp add: predict_growth_stage_raised try_block_decode_fails)
next
  fix path m t e
  assume a: "model_loaded st \<and> model st = Some m \<and>
            preprocess_image env path = Inr t \<and> m t = Inl e"
  then have "caught_by_except_Exception e" using mdl by blast
  moreover from a have "try_block env st path = (Inl e, [Call_load_img path, Call_predict t])"
    by (simp add: try_block_unfold)
  ultimately show "predict_growth_stage env st (Some path) =
              (Inr (error_text env e, '''', ''''), [Call_load_img path, Call_predict t])"
    using a by (simp add: predict_growth_stage_raised)
qed

lemma sample_decode_faults:
  "\<forall>path e. decode sample_env path = Inl e \<longrightarrow> caught_by_except_Exception e"
  by (auto simp: sample_env_def caught_by_except_Exception_def split: if_splits)

lemma sample_model_faults:
  "\<forall>m t e. model (sample_state c) = Some m \<and> m t = Inl e \<longrightarrow> caught_by_except_Exception e"
  by (auto simp: sample_state_def sample_classifier_def)

lemma sample_decode_missing:
  "decode sample_env ''missing.png'' = Inl (PyExc FileNotFoundError (Message ''missing.png''))"
  by (simp add: sample_env_def)

theorem per_call_failures_are_caught_witness:
  "predict_growth_stage sample_env (sample_state [1/10, 2/10, 6/10, 1/10]) (Some ''missing.png'') =
     (Inr (error_text sample_env (PyExc FileNotFoundError (Message ''missing.png'')), '''', ''''),
      [Call_load_img ''missing.png''])"
proof -
  have loaded: "model_loaded (sample_state [1/10, 2/10, 6/10, 1/10])"
    by (simp add: sample_state_def)
  from per_call_failures_are_caught [OF sample_decode_faults sample_model_faults,
         of "[1/10, 2/10, 6/10, 1/10]" None]
  show ?thesis using loaded sample_decode_missing by blast
qed

text \<open>
  C10. Under the same proviso \<open>predict_growth_stage\<close> returns three strings, and when the
  model is not loaded, when there is no input, or when the guarded block raised, the second
  and the third are empty.
\<close>

theorem degraded_outputs_are_empty:
  assumes dec: "\<forall>path e. decode env path = Inl e \<longrightarrow> caught_by_except_Exception e"
      and mdl: "\<forall>m t e. model st = Some m \<and> m t = Inl e \<longrightarrow> caught_by_except_Exception e"
  shows "\<exists>result_text confidence_html care_html.
           fst (predict_growth_stage env st img_file) =
             Inr (result_text, confidence_html, care_html) \<and>
           ((\<not> model_loaded st \<or> img_file = None \<or>
             (\<exists>path e calls. img_file = Some path \<and> try_block env st path = (Inl e, calls))) \<longrightarrow>
            confidence_html = '''' \<and> care_html = '''')"
proof (cases "model_loaded st")
  case False
  then show ?thesis by (simp add: predict_growth_stage_def)
next
  case loaded: True
  show ?thesis
  proof (cases img_file)
    case None
    with loaded show ?thesis by (simp add: predict_growth_stage_def)
  next
    case (Some path)
    obtain r calls where tb: "try_block env st path = (r, calls)" by (cases "try_block env st path")
    show ?thesis
    proof (cases r)
      case (Inl e)
      with tb have "caught_by_except_Exception e"
        using try_block_raises_caught [OF dec mdl] by blast
      with loaded tb Inl Some show ?thesis
        by (simp add: predict_growth_stage_raised)
    next
      case (Inr out)
      obtain a b c where "out = (a, b, c)" by (cases out)
      with loaded tb Inr Some show ?thesis
        by (simp add: predict_growth_stage_returned)
    qed
  qed
qed

theorem degraded_outputs_are_empty_witness:
  "try_block sample_env (sample_state [1/10, 2/10, 6/10, 1/10]) ''missing.png'' =
     (Inl (PyExc FileNotFoundError (Message ''missing.png'')), [Call_load_img ''missing.png'']) \<and>
   (\<exists>result_text.
      fst (predict_growth_stage sample_env (sample_state [1/10, 2/10, 6/10, 1/10])
             (Some ''missing.png'')) = Inr (result_text, '''', ''''))"
proof -
  have tb: "try_block sample_env (sample_state [1/10, 2/10, 6/10, 1/10]) ''missing.png'' =
     (Inl (PyExc FileNotFoundError (Message ''missing.png'')), [Call_load_img ''missing.png''])"
    by (rule try_block_decode_fails [OF sample_decode_missing])
  from degraded_outputs_are_empty [OF sample_decode_faults sample_model_faults,
         of "[1/10, 2/10, 6/10, 1/10]" "Some ''missing.png''"]
  show ?thesis using tb by blast
qed

section \<open>A label outside the catalog\<close>

lemma present_unknown_label:
  assumes "np_argmax confidences = Inr i" "i \<notin> {0, 1, 2, 3}"
  shows "present env (confidences # rest) = Inl (PyExc KeyError (Key i))"
proof -
  from assms(2) have "\<not> i < 4" by auto
  then have "map_of class_labels i = None"
    using class_labels_declared [of i] by (cases "map_of class_labels i") auto
  with assms(1) show ?thesis
    by (simp add: present_unfold dict_getitem_def)
qed

text \<open>
  C4, as the code has it. When the predicted index is outside the catalog, the lookup
  \<open>class_labels[predicted_class_index]\<close> raises \<open>KeyError\<close> inside the guarded block and
  the handler catches it like any other failure: the caller gets the message built from the
  \<open>KeyError\<close> and two empty strings, not an exception.
\<close>

theorem unknown_label_is_caught:
  assumes "model_loaded st" "model st = Some m"
      and "preprocess_image env path = Inr t" "m t = Inr (confidences # rest)"
      and "np_argmax confidences = Inr i" "i \<notin> {0, 1, 2, 3}"
  shows "dict_getitem class_labels i = Inl (PyExc KeyError (Key i)) \<and>
         predict_growth_stage env st (Some path) =
           (Inr (error_text env (PyExc KeyError (Key i)), '''', ''''),
            [Call_load_img path, Call_predict t])"
proof -
  from assms(6) have "\<not> i < 4" by auto
  then have "map_of class_labels i = None"
    using class_labels_declared [of i] by (cases "map_of class_labels i") auto
  then have "dict_getitem class_labels i = Inl (PyExc KeyError (Key i))"
    by (simp add: dict_getitem_def)
  moreover have "present env (confidences # rest) = Inl (PyExc KeyError (Key i))"
    using assms(5,6) by (rule present_unknown_label)
  then have "predict_growth_stage env st (Some path) =
           (Inr (error_text env (PyExc KeyError (Key i)), '''', ''''),
            [Call_load_img path, Call_predict t])"
    using predict_growth_stage_classified [OF assms(1-4)] by simp
  ultimately show ?thesis by blast
qed

lemma sample_five_outputs: "np_argmax [0, 0, 0, 0, 1] = Inr 4"
  by (simp add: np_argmax_def)

theorem unknown_label_is_caught_witness:
  "\<exists>t. preprocess_image sample_env ''leaf.png'' = Inr t \<and>
       np_argmax [0, 0, 0, 0, 1] = Inr 4 \<and>
       predict_growth_stage sample_env (sample_state [0, 0, 0, 0, 1]) (Some ''leaf.png'') =
         (Inr (error_text sample_env (PyExc KeyError (Key 4)), '''', ''''),
          [Call_load_img ''leaf.png'', Call_predict t])"
proof -
  let ?c = "[0, 0, 0, 0, 1] :: real list"
  obtain t where t: "preprocess_image sample_env ''leaf.png'' = Inr t"
    using sample_preprocess by blast
  have a: "model_loaded (sample_state ?c)" by (simp add: sample_state_def)
  have b: "model (sample_state ?c) = Some (sample_classifier ?c)" by (simp add: sample_state_def)
  have c: "sample_classifier ?c t = Inr (?c # [])" by (simp add: sample_classifier_def)
  have d: "(4::nat) \<notin> {0, 1, 2, 3}" by simp
  from unknown_label_is_caught [OF a b t c sample_five_outputs d] t sample_five_outputs
  show ?thesis by blast
qed

text \<open>
  The claim as the specification states it fails: the model's answer \<open>[0, 0, 0, 0, 1]\<close>
  makes the lookup raise \<open>KeyError\<close> for the key 4, and the call returns the ordinary
  error triple.
\<close>

theorem unknown_label_escalates_counterexample:
  "dict_getitem class_labels 4 = Inl (PyExc KeyError (Key 4)) \<and>
   fst (predict_growth_stage sample_env (sample_state [0, 0, 0, 0, 1]) (Some ''leaf.png'')) =
     Inr (error_text sample_env (PyExc KeyError (Key 4)), '''', '''')"
proof -
  let ?c = "[0, 0, 0, 0, 1] :: real list"
  obtain t where t: "preprocess_image sample_env ''leaf.png'' = Inr t"
    using sample_preprocess by blast
  have a: "model_loaded (sample_state ?c)" by (simp add: sample_state_def)
  have b: "model (sample_state ?c) = Some (sample_classifier ?c)" by (simp add: sample_state_def)
  have c: "sample_classifier ?c t = Inr (?c # [])" by (simp add: sample_classifier_def)
  have d: "(4::nat) \<notin> {0, 1, 2, 3}" by simp
  have "present sample_env (?c # []) = Inl (PyExc KeyError (Key 4))"
    using sample_five_outputs d by (rule present_unknown_label)
  then have "predict_growth_stage sample_env (sample_state ?c) (Some ''leaf.png'') =
           (Inr (error_text sample_env (PyExc KeyError (Key 4)), '''', ''''),
            [Call_load_img ''leaf.png'', Call_predict t])"
    using predict_growth_stage_classified [OF a b t c] by simp
  moreover have "dict_getitem class_labels 4 = Inl (PyExc KeyError (Key 4))"
    by (simp add: dict_getitem_def class_labels_def)
  ultimately show ?thesis by simp
qed

section \<open>The confidence breakdown\<close>

lemma sum_over_catalog:
  fixes c :: "real list"
  shows "(\<Sum>(class_idx, label)\<leftarrow>class_labels. c ! class_idx) = c ! 0 + c ! 1 + c ! 2 + c ! 3"
proof -
  have "(\<Sum>(class_idx, label)\<leftarrow>class_labels. c ! class_idx) = (\<Sum>k\<leftarrow>map fst class_labels. c ! k)"
    by (simp add: split_def comp_def)
  then show ?thesis unfolding class_labels_keys by (simp add: add.assoc)
qed

lemma sum_list_four:
  fixes c :: "real list"
  assumes "length c = 4"
  shows "sum_list c = c ! 0 + c ! 1 + c ! 2 + c ! 3"
proof -
  from assms obtain a b d e where "c = [a, b, d, e]"
    by (auto simp: length_Suc_conv numeral_eq_Suc)
  then show ?thesis by simp
qed

lemma entry_markup_unfold:
  "entry_markup env i class_idx label c =
     confidence_row env
       (if class_idx = i then ''2px solid #4CAF50'' else ''1px solid #ddd'')
       (if class_idx = i then ''bold'' else ''normal'')
       (if class_idx = i then ''#2d5016'' else ''#666'')
       label (c * 100)
       (if class_idx = i then ''linear-gradient(90deg, #4CAF50, #45a049)''
        else ''linear-gradient(90deg, #e0e0e0, #d0d0d0)'')"
  by (simp add: entry_markup_def Let_def)

text \<open>
  C6, as the code has it. In every result the confidence breakdown is the opening markup,
  one entry for each entry of the catalog in the catalog's order, which is 0, 1, 2, 3, and the
  closing tag; the entry of a class shows the label of the class and the model's output for
  it, times 100, and only the entry of the predicted class is highlighted. The values are
  passed on as the model gave them: when the model gives four values, the four values shown
  add up to what the model's output adds up to.
\<close>

theorem breakdown_has_one_entry_per_label:
  assumes "present env (confidences # rest) = Inr (result_text, confidence_html, care_html)"
  shows "\<exists>i. np_argmax confidences = Inr i \<and>
           confidence_html =
             confidence_html_open @ confidence_html_heading @
             concat (map (\<lambda>(class_idx, label).
                            confidence_row env
                              (if class_idx = i then ''2px solid #4CAF50'' else ''1px solid #ddd'')
                              (if class_idx = i then ''bold'' else ''normal'')
                              (if class_idx = i then ''#2d5016'' else ''#666'')
                              label (confidences ! class_idx * 100)
                              (if class_idx = i then ''linear-gradient(90deg, #4CAF50, #45a049)''
                               else ''linear-gradient(90deg, #e0e0e0, #d0d0d0)''))
                         class_labels) @
             ''</div>'' \<and>
           map fst class_labels = [0, 1, 2, 3] \<and>
           4 \<le> length confidences \<and>
           (length confidences = 4 \<longrightarrow>
              (\<Sum>(class_idx, label)\<leftarrow>class_labels. confidences ! class_idx) =
                sum_list confidences)"
proof -
  from assms obtain i where i: "np_argmax confidences = Inr i"
    and len: "4 \<le> length confidences"
    and html: "confidence_html =
             confidence_html_open @ confidence_html_heading @
             concat (map (\<lambda>(class_idx, label).
                            entry_markup env i class_idx label (confidences ! class_idx))
                         class_labels) @
             ''</div>''"
    unfolding present_Inr by blast
  have html': "confidence_html =
             confidence_html_open @ confidence_html_heading @
             concat (map (\<lambda>(class_idx, label).
                            confidence_row env
                              (if class_idx = i then ''2px solid #4CAF50'' else ''1px solid #ddd'')
                              (if class_idx = i then ''bold'' else ''normal'')
                              (if class_idx = i then ''#2d5016'' else ''#666'')
                              label (confidences ! class_idx * 100)
                              (if class_idx = i then ''linear-gradient(90deg, #4CAF50, #45a049)''
                               else ''linear-gradient(90deg, #e0e0e0, #d0d0d0)''))
                         class_labels) @
             ''</div>''"
    using html unfolding entry_markup_unfold .
  have four: "length confidences = 4 \<longrightarrow>
              (\<Sum>(class_idx, label)\<leftarrow>class_labels. confidences ! class_idx) =
                sum_list confidences"
    by (simp add: sum_over_catalog sum_list_four)
  show ?thesis
  proof (intro exI [of _ i] conjI)
    show "np_argmax confidences = Inr i" by (fact i)
    show "confidence_html =
             confidence_html_open @ confidence_html_heading @
             concat (map (\<lambda>(class_idx, label).
                            confidence_row env
                              (if class_idx = i then ''2px solid #4CAF50'' else ''1px solid #ddd'')
                              (if class_idx = i then ''bold'' else ''normal'')
                              (if class_idx = i then ''#2d5016'' else ''#666'')
                              label (confidences ! class_idx * 100)
                              (if class_idx = i then ''linear-gradient(90deg, #4CAF50, #45a049)''
                               else ''linear-gradient(90deg, #e0e0e0, #d0d0d0)''))
                         class_labels) @
             ''</div>''" by (fact html')
    show "map fst class_labels = [0, 1, 2, 3]" by (fact class_labels_keys)
    show "4 \<le> length confidences" by (fact len)
    show "length confidences = 4 \<longrightarrow>
              (\<Sum>(class_idx, label)\<leftarrow>class_labels. confidences ! class_idx) =
                sum_list confidences" by (fact four)
  qed
qed

theorem breakdown_has_one_entry_per_label_witness:
  "\<exists>result_text confidence_html care_html.
     present sample_env [[1/10, 2/10, 6/10, 1/10]] =
       Inr (result_text, confidence_html, care_html) \<and>
     np_argmax [1/10, 2/10, 6/10, 1/10] = Inr 2 \<and>
     confidence_html =
       confidence_html_open @ confidence_html_heading @
       concat (map (\<lambda>(class_idx, label).
                      confidence_row sample_env
                        (if class_idx = 2 then ''2px solid #4CAF50'' else ''1px solid #ddd'')
                        (if class_idx = 2 then ''bold'' else ''normal'')
                        (if class_idx = 2 then ''#2d5016'' else ''#666'')
                        label ([1/10, 2/10, 6/10, 1/10] ! class_idx * 100)
                        (if class_idx = 2 then ''linear-gradient(90deg, #4CAF50, #45a049)''
                         else ''linear-gradient(90deg, #e0e0e0, #d0d0d0)''))
                   class_labels) @
       ''</div>'' \<and>
     (\<Sum>(class_idx, label)\<leftarrow>class_labels. [1/10, 2/10, 6/10, 1/10] ! class_idx) = (1 :: real)"
proof -
  let ?c = "[1/10, 2/10, 6/10, 1/10] :: real list"
  have len: "length ?c = 4" by simp
  have i: "np_argmax ?c = Inr 2" by (simp add: np_argmax_def)
  have total: "sum_list ?c = 1" by simp
  obtain out where "present sample_env (?c # []) = Inr out"
    using present_four_values [OF len] by blast
  moreover obtain a b c where "out = (a, b, c)" by (cases out)
  ultimately have ok: "present sample_env (?c # []) = Inr (a, b, c)" by simp
  from breakdown_has_one_entry_per_label [OF ok] i ok len total show ?thesis
    by auto
qed

lemma catalog_entry_0:
  "map_of class_labels 0 = Some (snd (class_labels ! 0))"
  "map_of care_instructions 0 = Some care_Early_Vegetative"
  by (simp_all add: class_labels_def care_instructions_def)

lemma sample_four_fives: "np_argmax [5, 5, 5, 5] = Inr 0"
  by (simp add: np_argmax_def)

text \<open>
  The values need not add up to 1: the model's answer \<open>[5, 5, 5, 5]\<close> is classified
  like any other, each of the four entries shows 500 percent, and the four values add up
  to 20.
\<close>

theorem breakdown_sums_to_one_counterexample:
  "fst (predict_growth_stage sample_env (sample_state [5, 5, 5, 5]) (Some ''leaf.png'')) =
     Inr (result_text_of sample_env (snd (class_labels ! 0)) 5,
          confidence_html_open @ confidence_html_heading @
          confidence_row sample_env ''2px solid #4CAF50'' ''bold'' ''#2d5016''
            (snd (class_labels ! 0)) 500 ''linear-gradient(90deg, #4CAF50, #45a049)'' @
          confidence_row sample_env ''1px solid #ddd'' ''normal'' ''#666''
            (snd (class_labels ! 1)) 500 ''linear-gradient(90deg, #e0e0e0, #d0d0d0)'' @
          confidence_row sample_env ''1px solid #ddd'' ''normal'' ''#666''
            (snd (class_labels ! 2)) 500 ''linear-gradient(90deg, #e0e0e0, #d0d0d0)'' @
          confidence_row sample_env ''1px solid #ddd'' ''normal'' ''#666''
            (snd (class_labels ! 3)) 500 ''linear-gradient(90deg, #e0e0e0, #d0d0d0)'' @
          ''</div>'',
          care_html_of care_Early_Vegetative) \<and>
   sum_list [5, 5, 5, 5] = (20 :: real) \<and>
   \<not> \<bar>sum_list [5, 5, 5, 5] - (1 :: real)\<bar> \<le> 1 / 10000"
proof -
  let ?c = "[5, 5, 5, 5] :: real list"
  obtain t where t: "preprocess_image sample_env ''leaf.png'' = Inr t"
    using sample_preprocess by blast
  have a: "model_loaded (sample_state ?c)" by (simp add: sample_state_def)
  have b: "model (sample_state ?c) = Some (sample_classifier ?c)" by (simp add: sample_state_def)
  have c: "sample_classifier ?c t = Inr (?c # [])" by (simp add: sample_classifier_def)
  have rows: "concat (map (\<lambda>(class_idx, label).
                  entry_markup sample_env 0 class_idx label (?c ! class_idx)) class_labels) =
          confidence_row sample_env ''2px solid #4CAF50'' ''bold'' ''#2d5016''
            (snd (class_labels ! 0)) 500 ''linear-gradient(90deg, #4CAF50, #45a049)'' @
          confidence_row sample_env ''1px solid #ddd'' ''normal'' ''#666''
            (snd (class_labels ! 1)) 500 ''linear-gradient(90deg, #e0e0e0, #d0d0d0)'' @
          confidence_row sample_env ''1px solid #ddd'' ''normal'' ''#666''
            (snd (class_labels ! 2)) 500 ''linear-gradient(90deg, #e0e0e0, #d0d0d0)'' @
          confidence_row sample_env ''1px solid #ddd'' ''normal'' ''#666''
            (snd (class_labels ! 3)) 500 ''linear-gradient(90deg, #e0e0e0, #d0d0d0)''"
    unfolding entry_markup_unfold by (simp add: class_labels_def)
  have "present sample_env (?c # []) =
          Inr (result_text_of sample_env (snd (class_labels ! 0)) (?c ! 0),
               confidence_html_open @ confidence_html_heading @
               concat (map (\<lambda>(class_idx, label).
                  entry_markup sample_env 0 class_idx label (?c ! class_idx)) class_labels) @
               ''</div>'',
               care_html_of care_Early_Vegetative)"
    unfolding present_Inr using sample_four_fives catalog_entry_0 by simp
  then have "present sample_env (?c # []) =
     Inr (result_text_of sample_env (snd (class_labels ! 0)) 5,
          confidence_html_open @ confidence_html_heading @
          confidence_row sample_env ''2px solid #4CAF50'' ''bold'' ''#2d5016''
            (snd (class_labels ! 0)) 500 ''linear-gradient(90deg, #4CAF50, #45a049)'' @
          confidence_row sample_env ''1px solid #ddd'' ''normal'' ''#666''
            (snd (class_labels ! 1)) 500 ''linear-gradient(90deg, #e0e0e0, #d0d0d0)'' @
          confidence_row sample_env ''1px solid #ddd'' ''normal'' ''#666''
            (snd (class_labels ! 2)) 500 ''linear-gradient(90deg, #e0e0e0, #d0d0d0)'' @
          confidence_row sample_env ''1px solid #ddd'' ''normal'' ''#666''
            (snd (class_labels ! 3)) 500 ''linear-gradient(90deg, #e0e0e0, #d0d0d0)'' @
          ''</div>'',
          care_html_of care_Early_Vegetative)"
    unfolding rows by simp
  then have "fst (predict_growth_stage sample_env (sample_state ?c) (Some ''leaf.png'')) =
     Inr (result_text_of sample_env (snd (class_labels ! 0)) 5,
          confidence_html_open @ confidence_html_heading @
          confidence_row sample_env ''2px solid #4CAF50'' ''bold'' ''#2d5016''
            (snd (class_labels ! 0)) 500 ''linear-gradient(90deg, #4CAF50, #45a049)'' @
          confidence_row sample_env ''1px solid #ddd'' ''normal'' ''#666''
            (snd (class_labels ! 1)) 500 ''linear-gradient(90deg, #e0e0e0, #d0d0d0)'' @
          confidence_row sample_env ''1px solid #ddd'' ''normal'' ''#666''
            (snd (class_labels ! 2)) 500 ''linear-gradient(90deg, #e0e0e0, #d0d0d0)'' @
          confidence_row sample_env ''1px solid #ddd'' ''normal'' ''#666''
            (snd (class_labels ! 3)) 500 ''linear-gradient(90deg, #e0e0e0, #d0d0d0)'' @
          ''</div>'',
          care_html_of care_Early_Vegetative)"
    using predict_growth_stage_classified [OF a b t c] by simp
  moreover have "sum_list ?c = 20" by simp
  moreover have "\<not> \<bar>sum_list ?c - 1\<bar> \<le> 1 / 10000" by simp
  ultimately show ?thesis by blast
qed

subsection \<open>The network of \<open>train_model.py\<close>\<close>

text \<open>
  The outputs of a softmax layer add up to 1, so the values shown do when the file that
  \<open>app.py\<close> loads is the network \<open>train_model.py\<close> saved. Nothing in
  \<open>app.py\<close> checks that it is.
\<close>

lemma sum_list_divide: "(\<Sum>x\<leftarrow>z. f x / c) = (\<Sum>x\<leftarrow>z. f x) / (c :: real)"
  by (induction z) (simp_all add: add_divide_distrib)

lemma sum_list_exp_nonneg: "0 \<le> (\<Sum>x\<leftarrow>z. exp (x :: real))"
  by (induction z) (simp_all add: add_nonneg_nonneg)

lemma sum_list_exp_pos: "z \<noteq> [] \<Longrightarrow> 0 < (\<Sum>x\<leftarrow>z. exp (x :: real))"
proof (cases z)
  case Nil
  assume "z \<noteq> []"
  with Nil show ?thesis by simp
next
  case (Cons x xs)
  have "0 < exp x" by simp
  with sum_list_exp_nonneg [of xs] have "0 < exp x + (\<Sum>x\<leftarrow>xs. exp x)"
    by (simp add: add_pos_nonneg)
  with Cons show ?thesis by simp
qed

lemma softmax_sums_to_one: "z \<noteq> [] \<Longrightarrow> sum_list (softmax z) = 1"
  using sum_list_exp_pos [of z] by (simp add: softmax_def sum_list_divide)

lemma softmax_length: "length (softmax z) = length z"
  by (simp add: softmax_def)

lemma softmax_breakdown_sums_to_one:
  assumes "length z = 4"
  shows "(\<Sum>(class_idx, label)\<leftarrow>class_labels. softmax z ! class_idx) = 1"
proof -
  from assms have "z \<noteq> []" by auto
  then have "sum_list (softmax z) = 1" by (rule softmax_sums_to_one)
  moreover from assms have "length (softmax z) = 4" by (simp add: softmax_length)
  ultimately show ?thesis by (simp add: sum_over_catalog sum_list_four)
qed

section \<open>The care instructions\<close>

text \<open>
  C8. When the predicted index \<open>i\<close> is one of 0, 1, 2, 3 (and the model gave at least the
  four values the breakdown reads), the label in the result is the catalog's label for \<open>i\<close>
  and the care markup is built from the catalog's record for \<open>i\<close>, its title included.
\<close>

theorem care_record_matches_predicted_label:
  assumes "model_loaded st" "model st = Some m"
      and "preprocess_image env path = Inr t" "m t = Inr (confidences # rest)"
      and "np_argmax confidences = Inr i" "i \<in> {0, 1, 2, 3}" "4 \<le> length confidences"
  shows "\<exists>label care_info confidence_html.
           map_of class_labels i = Some label \<and>
           map_of care_instructions i = Some care_info \<and>
           predict_growth_stage env st (Some path) =
             (Inr (result_text_of env label (confidences ! i), confidence_html,
                   care_html_of care_info),
              [Call_load_img path, Call_predict t])"
proof -
  from assms(6) have "i < 4" by auto
  then obtain label care_info where label: "map_of class_labels i = Some label"
    and care_info: "map_of care_instructions i = Some care_info"
    using class_labels_declared care_instructions_declared by blast
  let ?html = "confidence_html_open @ confidence_html_heading @
               concat (map (\<lambda>(class_idx, label).
                  entry_markup env i class_idx label (confidences ! class_idx)) class_labels) @
               ''</div>''"
  have "present env (confidences # rest) =
          Inr (result_text_of env label (confidences ! i), ?html, care_html_of care_info)"
    unfolding present_Inr using assms(5,7) label care_info by blast
  then have "predict_growth_stage env st (Some path) =
             (Inr (result_text_of env label (confidences ! i), ?html, care_html_of care_info),
              [Call_load_img path, Call_predict t])"
    using predict_growth_stage_classified [OF assms(1-4)] by simp
  with label care_info show ?thesis by blast
qed

lemma catalog_entry_2:
  "map_of class_labels 2 = Some (''Fruiting_and_Ripening '' @ [CHR 0xF0, CHR 0x9F, CHR 0x8D, CHR 0x85])"
  "map_of care_instructions 2 = Some care_Fruiting_and_Ripening"
  by (simp_all add: class_labels_def care_instructions_def)

theorem care_record_matches_predicted_label_witness:
  "\<exists>t confidence_html.
     np_argmax [1/10, 2/10, 6/10, 1/10] = Inr 2 \<and>
     predict_growth_stage sample_env (sample_state [1/10, 2/10, 6/10, 1/10]) (Some ''leaf.png'') =
       (Inr (result_text_of sample_env
               (''Fruiting_and_Ripening '' @ [CHR 0xF0, CHR 0x9F, CHR 0x8D, CHR 0x85]) (6/10),
             confidence_html, care_html_of care_Fruiting_and_Ripening),
        [Call_load_img ''leaf.png'', Call_predict t]) \<and>
     title care_Fruiting_and_Ripening =
       ''Fruiting and Ripening Stage Care '' @ [CHR 0xF0, CHR 0x9F, CHR 0x8D, CHR 0x85]"
proof -
  let ?c = "[1/10, 2/10, 6/10, 1/10] :: real list"
  obtain t where t: "preprocess_image sample_env ''leaf.png'' = Inr t"
    using sample_preprocess by blast
  have a: "model_loaded (sample_state ?c)" by (simp add: sample_state_def)
  have b: "model (sample_state ?c) = Some (sample_classifier ?c)" by (simp add: sample_state_def)
  have c: "sample_classifier ?c t = Inr (?c # [])" by (simp add: sample_classifier_def)
  have i: "np_argmax ?c = Inr 2" by (simp add: np_argmax_def)
  have d: "(2::nat) \<in> {0, 1, 2, 3}" by simp
  have e: "4 \<le> length ?c" by simp
  have ttl: "title care_Fruiting_and_Ripening =
       ''Fruiting and Ripening Stage Care '' @ [CHR 0xF0, CHR 0x9F, CHR 0x8D, CHR 0x85]"
    by (simp add: care_Fruiting_and_Ripening_def)
  from care_record_matches_predicted_label [OF a b t c i d e]
  obtain label care_info confidence_html where
    "map_of class_labels 2 = Some label" "map_of care_instructions 2 = Some care_info"
    and r: "predict_growth_stage sample_env (sample_state ?c) (Some ''leaf.png'') =
             (Inr (result_text_of sample_env label (?c ! 2), confidence_html,
                   care_html_of care_info),
              [Call_load_img ''leaf.png'', Call_predict t])"
    by blast
  with catalog_entry_2 have "label = ''Fruiting_and_Ripening '' @ [CHR 0xF0, CHR 0x9F, CHR 0x8D, CHR 0x85]"
    and "care_info = care_Fruiting_and_Ripening" by simp_all
  with r i ttl show ?thesis by auto
qed

section \<open>cleanup.py removes exactly the unreadable images\<close>







end
